theory Spec2Isabelle
  imports Complex_Main
begin

section \<open>Python values used by pymcwrapper\<close>

text \<open>
  A Python \<open>str\<close> is a sequence of Unicode code points, so it is modelled as a list of
  natural numbers. \<open>py\<close> turns an Isabelle literal into such a list.
\<close>

type_synonym pystr = "nat list"

definition py :: "string \<Rightarrow> pystr" where
  "py s = map of_char s"

text \<open>
  The code points Python treats as whitespace in \<open>str.split()\<close>, \<open>str.strip()\<close> and
  \<open>str.rstrip()\<close> without arguments.
\<close>

definition py_isspace :: "nat \<Rightarrow> bool" where
  "py_isspace c =
     (c \<in> {9, 10, 11, 12, 13, 28, 29, 30, 31, 32, 133, 160, 5760, 8232, 8233, 8239, 8287, 12288}
      \<or> (8192 \<le> c \<and> c \<le> 8202))"

definition rstrip :: "pystr \<Rightarrow> pystr" where
  "rstrip s = rev (dropWhile py_isspace (rev s))"

definition strip :: "pystr \<Rightarrow> pystr" where
  "strip s = rstrip (dropWhile py_isspace s)"

text \<open>
  \<open>s.split(maxsplit=1)\<close>: leading whitespace is skipped; the first token is the longest
  run without whitespace; the whitespace after it is skipped and what is left, when
  anything is left, is the second and last item.
\<close>

definition split_maxsplit1 :: "pystr \<Rightarrow> pystr list" where
  "split_maxsplit1 s =
     (let s1 = dropWhile py_isspace s in
      if s1 = [] then []
      else
        let tok = takeWhile (\<lambda>c. \<not> py_isspace c) s1;
            remainder = dropWhile py_isspace (dropWhile (\<lambda>c. \<not> py_isspace c) s1)
        in if remainder = [] then [tok] else [tok, remainder])"

text \<open>\<open>s.split()\<close>: the maximal runs without whitespace, in order.\<close>

fun split_ws :: "pystr \<Rightarrow> pystr \<Rightarrow> pystr list" where
  "split_ws cur [] = (if cur = [] then [] else [cur])"
| "split_ws cur (c # cs) =
     (if py_isspace c then (if cur = [] then split_ws [] cs else cur # split_ws [] cs)
      else split_ws (cur @ [c]) cs)"

definition split :: "pystr \<Rightarrow> pystr list" where
  "split s = split_ws [] s"

text \<open>\<open>sep.join(items)\<close>.\<close>

fun join :: "pystr \<Rightarrow> pystr list \<Rightarrow> pystr" where
  "join sep [] = []"
| "join sep [x] = x"
| "join sep (x # y # ys) = x @ sep @ join sep (y # ys)"

text \<open>\<open>str(n)\<close> for a length: the decimal digits.\<close>

function str_nat :: "nat \<Rightarrow> pystr" where
  "str_nat n = (if n < 10 then [48 + n] else str_nat (n div 10) @ [48 + n mod 10])"
  by pat_completeness auto
termination
  by (relation "measure (\<lambda>n. n)") auto

declare str_nat.simps [simp del]

text \<open>
  A raised exception: the names of its class and of the classes it derives from (so that
  an \<open>except C\<close> clause matches when \<open>C\<close> is among them), and \<open>e.args\<close>, each
  argument given by its \<open>str()\<close>.
\<close>

datatype exc = Exc (mro: "string list") (args: "pystr list")

definition isinstance :: "exc \<Rightarrow> string \<Rightarrow> bool" where
  "isinstance e c = (c \<in> set (mro e))"

definition ZeroDivisionError :: exc where
  "ZeroDivisionError =
     Exc [''ZeroDivisionError'', ''ArithmeticError'', ''Exception'', ''BaseException'']
         [py ''integer division or modulo by zero'']"

definition IndexError :: "string \<Rightarrow> exc" where
  "IndexError msg =
     Exc [''IndexError'', ''LookupError'', ''Exception'', ''BaseException''] [py msg]"

text \<open>
  \<open>AttributeError\<close> as raised for a missing attribute: \<open>'cls' object has no attribute
  'attr'\<close> (39 is the apostrophe).
\<close>

definition no_attribute :: "string \<Rightarrow> string \<Rightarrow> exc" where
  "no_attribute cls attr =
     Exc [''AttributeError'', ''Exception'', ''BaseException'']
         [39 # py cls @ 39 # py '' object has no attribute '' @ 39 # py attr @ [39]]"

text \<open>
  The RuntimeError of \<open>Thread.start\<close> and \<open>Thread.join\<close>, and the BrokenPipeError of a
  write to a pipe whose reading end is closed, with \<open>args = (32, 'Broken pipe')\<close>.
\<close>

definition RuntimeError :: "string \<Rightarrow> exc" where
  "RuntimeError msg = Exc [''RuntimeError'', ''Exception'', ''BaseException''] [py msg]"

definition BrokenPipeError :: exc where
  "BrokenPipeError =
     Exc [''BrokenPipeError'', ''ConnectionError'', ''OSError'', ''Exception'', ''BaseException'']
         [py ''32'', py ''Broken pipe'']"

text \<open>
  \<open>xs[i]\<close> on a list: a negative index counts from the end, an index out of range raises
  IndexError.
\<close>

definition getitem :: "'a list \<Rightarrow> int \<Rightarrow> exc + 'a" where
  "getitem xs i =
     (let n = int (length xs); k = (if i < 0 then n + i else i)
      in if 0 \<le> k \<and> k < n then Inr (xs ! nat k)
         else Inl (IndexError ''list index out of range''))"

section \<open>Threads\<close>

text \<open>
  A \<open>threading.Thread\<close> as its owner sees it: created, started and still running its
  target, or ended. \<open>start\<close> raises on a thread that has been started before, \<open>join\<close>
  raises on a thread that has not been started.
\<close>

datatype thread_state =
    Unstarted
  | Alive
  | Finished

text \<open>
  How a call ends when it does not return a value: it raises, or it does not return
  because it waits for a thread that does not end or for a lock that is held.
\<close>

datatype failure =
    Raise exc
  | Blocks

definition thread_start :: "thread_state \<Rightarrow> failure + thread_state" where
  "thread_start t =
     (case t of
        Unstarted \<Rightarrow> Inr Alive
      | Alive \<Rightarrow> Inl (Raise (RuntimeError ''threads can only be started once''))
      | Finished \<Rightarrow> Inl (Raise (RuntimeError ''threads can only be started once'')))"

text \<open>
  \<open>join\<close> returns when the thread has ended; \<open>ends\<close> says whether a thread that is
  alive comes to its end.
\<close>

definition thread_join :: "bool \<Rightarrow> thread_state \<Rightarrow> failure + thread_state" where
  "thread_join ends t =
     (case t of
        Unstarted \<Rightarrow> Inl (Raise (RuntimeError ''cannot join thread before it is started''))
      | Alive \<Rightarrow> if ends then Inr Finished else Inl Blocks
      | Finished \<Rightarrow> Inr Finished)"

section \<open>Events (event.py, job.py, observer.py)\<close>

text \<open>
  The event classes of the repository. The queue accepts any object; \<open>OtherObject\<close> stands
  for one of another class, with the name of its class and its \<open>str()\<close>.
\<close>

datatype event =
    ExitEvent
  | InputEvent (to_input: pystr)
  | CommandSequenceJobEvent (event_title: pystr) (event_text: pystr)
  | DirectoryObserverFileChangeEvent (filepath: pystr)
  | OtherObject string pystr

section \<open>CommandSequenceJob (job.py)\<close>

text \<open>
  The fields that \<open>CommandSequenceJob.__init__\<close> sets. The event queue is shared with the
  wrapper, so the puts on it are recorded as actions; \<open>job_stop_event\<close> is the flag of
  the \<open>threading.Event\<close> and \<open>job_thread\<close> the state of the timer thread.
\<close>

record job =
  job_title :: pystr
  job_delay :: real
  job_length :: nat
  job_index :: int
  job_command_texts :: "pystr list"
  job_stop_event :: bool
  job_thread :: thread_state

text \<open>
  \<open>__init__\<close>: \<open>index % self._length\<close> raises ZeroDivisionError when \<open>groups\<close> is empty,
  before the command texts are built. Python's \<open>%\<close> on integers takes the sign of the
  divisor, as \<open>mod\<close> on \<open>int\<close> does.
\<close>

definition CommandSequenceJob_init ::
    "pystr \<Rightarrow> real \<Rightarrow> int \<Rightarrow> pystr list list \<Rightarrow> exc + job" where
  "CommandSequenceJob_init title_arg delay index groups =
     (let len = length groups in
      if len = 0 then Inl ZeroDivisionError
      else Inr \<lparr> job_title = title_arg,
                 job_delay = delay,
                 job_length = len,
                 job_index = index mod int len,
                 job_command_texts = map (\<lambda>commands. join (py ''\<newline>'') commands @ py ''\<newline>'') groups,
                 job_stop_event = False,
                 job_thread = Unstarted \<rparr>)"

text \<open>What the timer thread does to the outside: it puts events and waits on the stop event.\<close>

datatype job_action =
    QueuePut event
  | StopEventWait real

text \<open>How an observed run of the timer thread ends.\<close>

datatype loop_status =
    Looping
  | Exited
  | Crashed exc

text \<open>
  \<open>_loop_interval\<close>. The stop event is set by another thread, so the run is given the
  list of values \<open>self._stop_event.wait(self._delay)\<close> returns, one for each wait: True
  when the flag is set by then. The loop reads the flag before each iteration. When
  the list is used up the thread is still in the loop (\<open>Looping\<close>).
\<close>

fun loop_interval :: "bool list \<Rightarrow> job \<Rightarrow> job_action list \<times> loop_status \<times> job" where
  "loop_interval waits j =
     (if job_stop_event j then ([], Exited, j)
      else
        case waits of
          [] \<Rightarrow> ([], Looping, j)
        | wait_result # waits' \<Rightarrow>
            (case getitem (job_command_texts j) (job_index j) of
               Inl e \<Rightarrow> ([], Crashed e, j)
             | Inr command_text \<Rightarrow>
                 if job_length j = 0
                 then ([QueuePut (CommandSequenceJobEvent (job_title j) command_text)],
                       Crashed ZeroDivisionError, j)
                 else
                   let j' = j\<lparr>job_index := (job_index j + 1) mod int (job_length j),
                               job_stop_event := wait_result\<rparr>;
                       (acts, status, j'') = loop_interval waits' j'
                   in (QueuePut (CommandSequenceJobEvent (job_title j) command_text)
                         # StopEventWait (job_delay j) # acts, status, j'')))"

text \<open>\<open>stop\<close> sets the stop event.\<close>

definition job_stop :: "job \<Rightarrow> job" where
  "job_stop j = j\<lparr>job_stop_event := True\<rparr>"

text \<open>\<open>start\<close> starts the timer thread.\<close>

definition job_start :: "job \<Rightarrow> failure + job" where
  "job_start j =
     (case thread_start (job_thread j) of
        Inl f \<Rightarrow> Inl f
      | Inr t \<Rightarrow> Inr (j\<lparr>job_thread := t\<rparr>))"

text \<open>
  \<open>join\<close> joins the timer thread. A thread that is in \<open>_loop_interval\<close> leaves it once
  the stop event is set (the wait is woken, the loop reads the flag); while the stop
  event is not set it stays in the loop.
\<close>

definition job_join :: "job \<Rightarrow> failure + job" where
  "job_join j =
     (case thread_join (job_stop_event j) (job_thread j) of
        Inl f \<Rightarrow> Inl f
      | Inr t \<Rightarrow> Inr (j\<lparr>job_thread := t\<rparr>))"

declare loop_interval.simps [simp del]

text \<open>
  The number of iterations the loop runs for a list of wait results: one for each wait,
  up to and including the first wait that finds the stop event set.
\<close>

fun iterations :: "bool list \<Rightarrow> nat" where
  "iterations [] = 0"
| "iterations (w # ws) = (if w then 1 else Suc (iterations ws))"

text \<open>The state a job is in after \<open>__init__\<close> has succeeded, as far as the loop needs it.\<close>

definition job_inv :: "job \<Rightarrow> bool" where
  "job_inv j =
     (0 < job_length j \<and> length (job_command_texts j) = job_length j
      \<and> 0 \<le> job_index j \<and> job_index j < int (job_length j))"

text \<open>What the \<open>k\<close>-th iteration from job state \<open>j\<close> does to the outside.\<close>

definition firing :: "job \<Rightarrow> nat \<Rightarrow> job_action list" where
  "firing j k =
     [QueuePut (CommandSequenceJobEvent (job_title j)
        (job_command_texts j ! nat ((job_index j + int k) mod int (job_length j)))),
      StopEventWait (job_delay j)]"

section \<open>DirectoryObserver (observer.py)\<close>

text \<open>
  The wrapper only starts, stops and joins an observer. The watchdog thread behind it is
  outside the repository: it is a \<open>threading.Thread\<close>, which ends when it has been
  stopped.
\<close>

record observer =
  observer_path :: pystr
  observer_recursive :: bool
  observer_stopped :: bool
  observer_thread :: thread_state

definition DirectoryObserver_init :: "pystr \<Rightarrow> bool \<Rightarrow> observer" where
  "DirectoryObserver_init path recursive =
     \<lparr> observer_path = path, observer_recursive = recursive,
       observer_stopped = False, observer_thread = Unstarted \<rparr>"

definition observer_start :: "observer \<Rightarrow> failure + observer" where
  "observer_start ob =
     (case thread_start (observer_thread ob) of
        Inl f \<Rightarrow> Inl f
      | Inr t \<Rightarrow> Inr (ob\<lparr>observer_thread := t\<rparr>))"

definition observer_stop :: "observer \<Rightarrow> observer" where
  "observer_stop ob = ob\<lparr>observer_stopped := True\<rparr>"

definition observer_join :: "observer \<Rightarrow> failure + observer" where
  "observer_join ob =
     (case thread_join (observer_stopped ob) (observer_thread ob) of
        Inl f \<Rightarrow> Inl f
      | Inr t \<Rightarrow> Inr (ob\<lparr>observer_thread := t\<rparr>))"

section \<open>MCServerWrapper (mc_server_wrapper.py)\<close>

text \<open>
  The calls the wrapper makes on the objects it owns, in the order it makes them: what it
  prints (the text written to standard output with its line end, and whether \<open>print\<close>
  flushes), the child process and its standard input, the input lock, and the threads,
  jobs and observers (a job or observer is named by its position in the wrapper's list).
\<close>

datatype action =
    Print pystr bool
  | Popen "pystr list"
  | StdinWrite pystr
  | StdinFlush
  | ProcessWait
  | LockAcquire
  | LockRelease
  | OutputThreadStart
  | OutputThreadJoin
  | InputThreadStart
  | InputThreadJoin
  | EventQueueThreadStart
  | JobStart nat
  | JobStop nat
  | JobJoin nat
  | ObserverStart nat
  | ObserverStop nat
  | ObserverJoin nat

text \<open>
  The \<open>Popen\<close> object: the argument list it was made from and the state of the pipe to
  the child's standard input, which the child can close at any time. While the pipe
  is open \<open>stdin_write_error\<close> and \<open>stdin_flush_error\<close> are None; otherwise they hold
  what \<open>stdin.write\<close> and \<open>stdin.flush\<close> raise.
\<close>

datatype process =
  Process (process_args: "pystr list") (stdin_write_error: "exc option")
    (stdin_flush_error: "exc option")

text \<open>
  The relay thread, which \<open>start_server\<close> creates and starts at once, by the answer of
  its \<open>isAlive()\<close>.
\<close>

datatype thread = Thread (isAlive: bool)

text \<open>
  The wrapper: the fields its methods read back. \<open>server_input_lock\<close> says whether the
  lock is held. The event queue appears through the events given to the dispatcher.
\<close>

record wrapper =
  program :: pystr
  jobs :: "job list"
  observers :: "observer list"
  server_input_lock :: bool
  event_queue_thread :: thread_state
  input_thread :: thread_state
  server_process :: "process option"
  server_output_thread :: "thread option"
  trace :: "action list"

text \<open>
  \<open>__init__\<close>, given \<open>config.program\<close> and the jobs and observers already built from the
  configuration: the lock free, the threads created, no process, no relay thread,
  nothing done yet.
\<close>

definition MCServerWrapper_init :: "pystr \<Rightarrow> job list \<Rightarrow> observer list \<Rightarrow> wrapper" where
  "MCServerWrapper_init program_arg jobs_arg observers_arg =
     \<lparr> program = program_arg, jobs = jobs_arg, observers = observers_arg,
       server_input_lock = False, event_queue_thread = Unstarted, input_thread = Unstarted,
       server_process = None, server_output_thread = None, trace = [] \<rparr>"

text \<open>
  What lies outside the program and can make a call raise: spawning the child, the file
  system, the YAML parser and the procedure modules of the \<open>run\<close> command. A procedure's
  \<open>run\<close> either raises when called, or yields commands (each given by its \<open>str()\<close>) and
  then ends or raises. \<open>format_tb\<close> is
  \<open>traceback.format_list(traceback.extract_tb(e.__traceback__))\<close>. The child is taken to
  exit and to end its output when it has read \<open>stop\<close>, so that the wait for the
  process and the join of the relay thread in \<open>stop_server\<close> return.
\<close>

datatype pymodule = Module (run_attr: "(pystr \<Rightarrow> exc + pystr list \<times> exc option) option")

record env =
  popen :: "pystr list \<Rightarrow> exc option"
  format_tb :: "exc \<Rightarrow> pystr list"
  isfile :: "pystr \<Rightarrow> bool"
  isdir :: "pystr \<Rightarrow> bool"
  listdir :: "pystr \<Rightarrow> exc + pystr list"
  path_join :: "pystr \<Rightarrow> pystr \<Rightarrow> pystr"
  read_file :: "pystr \<Rightarrow> exc + pystr"
  yaml_load :: "pystr \<Rightarrow> exc + pystr"
  import_module :: "pystr \<Rightarrow> exc + pymodule"

text \<open>
  A method call on the wrapper: it returns a value, raises or does not return, and
  leaves the wrapper in a new state (for a call that does not return, the state in which
  it waits).
\<close>

type_synonym 'a call = "wrapper \<Rightarrow> (failure + 'a) \<times> wrapper"

definition and_then :: "unit call \<Rightarrow> 'a call \<Rightarrow> 'a call" where
  "and_then m k w = (case m w of (Inl f, w') \<Rightarrow> (Inl f, w') | (Inr u, w') \<Rightarrow> k w')"

definition effect :: "(wrapper \<Rightarrow> wrapper) \<Rightarrow> unit call" where
  "effect f w = (Inr (), f w)"

definition act :: "action \<Rightarrow> wrapper \<Rightarrow> wrapper" where
  "act a w = w\<lparr>trace := trace w @ [a]\<rparr>"

subsection \<open>Printing\<close>

definition FMT_RESET :: pystr where "FMT_RESET = 27 # py ''[0m''"
definition FMT_RED :: pystr where "FMT_RED = 27 # py ''[31m''"
definition FMT_YELLOW :: pystr where "FMT_YELLOW = 27 # py ''[33m''"
definition FMT_BLUE :: pystr where "FMT_BLUE = 27 # py ''[34m''"

text \<open>
  \<open>_print(*args, prefix, suffix, newline)\<close>, the arguments given by their \<open>str()\<close>:
  \<open>print(message, end=None if newline else '', flush=not newline)\<close>.
\<close>

definition print :: "pystr list \<Rightarrow> pystr \<Rightarrow> pystr \<Rightarrow> bool \<Rightarrow> wrapper \<Rightarrow> wrapper" where
  "print items prefix suffix newline =
     (let message = prefix @ join (py '' '') items @ suffix
      in act (Print (message @ (if newline then py ''\<newline>'' else [])) (\<not> newline)))"

definition print_color :: "pystr list \<Rightarrow> pystr \<Rightarrow> bool \<Rightarrow> wrapper \<Rightarrow> wrapper" where
  "print_color items color_fmt newline = print items color_fmt FMT_RESET newline"

definition print_error :: "pystr list \<Rightarrow> bool \<Rightarrow> wrapper \<Rightarrow> wrapper" where
  "print_error items newline = print_color items FMT_RED newline"

definition print_warning :: "pystr list \<Rightarrow> bool \<Rightarrow> wrapper \<Rightarrow> wrapper" where
  "print_warning items newline = print_color items FMT_YELLOW newline"

definition print_server :: "pystr list \<Rightarrow> bool \<Rightarrow> wrapper \<Rightarrow> wrapper" where
  "print_server items newline = print_color items FMT_BLUE newline"

subsection \<open>The child process\<close>

text \<open>\<open>_is_server_running\<close>: no relay thread yet, or the relay thread's \<open>isAlive()\<close>.\<close>

definition is_server_running :: "wrapper \<Rightarrow> bool" where
  "is_server_running w =
     (case server_output_thread w of None \<Rightarrow> False | Some t \<Rightarrow> isAlive t)"

text \<open>
  \<open>_loop_server_output\<close>, the target of the relay thread, given the lines the child
  writes until its output ends; and the run of the thread, which is no longer alive
  when its target has returned.
\<close>

definition loop_server_output :: "pystr list \<Rightarrow> wrapper \<Rightarrow> wrapper" where
  "loop_server_output lines w = fold (\<lambda>line. print_server [rstrip line] True) lines w"

definition output_thread_run :: "pystr list \<Rightarrow> wrapper \<Rightarrow> wrapper" where
  "output_thread_run lines w =
     (loop_server_output lines w)
       \<lparr>server_output_thread := map_option (\<lambda>t. Thread False) (server_output_thread w)\<rparr>"

text \<open>
  The child closes its standard input: from then on the text of a write still goes to
  the buffer of the pipe, and the flush raises.
\<close>

definition stdin_closes :: "wrapper \<Rightarrow> wrapper" where
  "stdin_closes w =
     w\<lparr>server_process :=
         map_option (\<lambda>p. Process (process_args p) (stdin_write_error p) (Some BrokenPipeError))
           (server_process w)\<rparr>"

text \<open>
  \<open>_write_server\<close>. \<open>acquire\<close> does not return while the lock is held. After it,
  \<open>self._server_process.stdin\<close> raises AttributeError while \<open>_server_process\<close> is None,
  and \<open>write\<close> and \<open>flush\<close> raise what the pipe makes them raise; there is no
  \<open>try\<close> around them, so an exception leaves the method with the lock held.
\<close>

definition write_server :: "pystr \<Rightarrow> unit call" where
  "write_server data w =
     (if is_server_running w then
        (if server_input_lock w then (Inl Blocks, w)
         else
           (let w1 = act LockAcquire (w\<lparr>server_input_lock := True\<rparr>) in
            case server_process w1 of
              None \<Rightarrow> (Inl (Raise (no_attribute ''NoneType'' ''stdin'')), w1)
            | Some p \<Rightarrow>
                (case stdin_write_error p of
                   Some e \<Rightarrow> (Inl (Raise e), w1)
                 | None \<Rightarrow>
                     (let w2 = act (StdinWrite data) w1 in
                      case stdin_flush_error p of
                        Some e \<Rightarrow> (Inl (Raise e), w2)
                      | None \<Rightarrow>
                          (Inr (), act LockRelease
                                     ((act StdinFlush w2)\<lparr>server_input_lock := False\<rparr>))))))
      else (Inr (), print_error [py ''Server is not running!''] True w))"

text \<open>
  The pipe to the child takes a write: the lock is free and the pipe is open. And what
  holds of a wrapper whose child has not closed its standard input: the lock is free, the
  pipe of the process object is open, and there is a process object while the relay
  thread is alive.
\<close>

definition stdin_ready :: "wrapper \<Rightarrow> bool" where
  "stdin_ready w =
     (\<not> server_input_lock w
      \<and> (case server_process w of
            None \<Rightarrow> False
          | Some p \<Rightarrow> stdin_write_error p = None \<and> stdin_flush_error p = None))"

definition stdin_open :: "wrapper \<Rightarrow> bool" where
  "stdin_open w =
     (\<not> server_input_lock w
      \<and> (case server_process w of
            None \<Rightarrow> \<not> is_server_running w
          | Some p \<Rightarrow> stdin_write_error p = None \<and> stdin_flush_error p = None))"

definition pipe :: "pystr \<Rightarrow> unit call" where
  "pipe data = write_server data"

definition send :: "pystr \<Rightarrow> unit call" where
  "send data = pipe (data @ py ''\<newline>'')"

definition echo :: "pystr \<Rightarrow> unit call" where
  "echo message = effect (print [message] [] [] True)"

text \<open>
  \<open>start_server\<close>. \<open>Popen\<close> may raise, and then neither field is assigned. A thread that
  has been started is alive.
\<close>

definition start_server :: "env \<Rightarrow> unit call" where
  "start_server env w =
     (if is_server_running w
      then (Inr (), print_error [py ''Server is already running!''] True w)
      else
        (let w1 = print [py ''Starting server...''] [] [] True w;
             argv = split (program w1)
         in case popen env argv of
              Some e \<Rightarrow> (Inl (Raise e), w1)
            | None \<Rightarrow>
                (let w2 = act (Popen argv) (w1\<lparr>server_process := Some (Process argv None None)\<rparr>);
                     w3 = w2\<lparr>server_output_thread := Some (Thread False)\<rparr>
                 in (Inr (), act OutputThreadStart
                               (w3\<lparr>server_output_thread := Some (Thread True)\<rparr>)))))"

text \<open>
  \<open>stop_server\<close>. \<open>join\<close> returns when the relay thread has ended.
\<close>

definition stop_server :: "unit call" where
  "stop_server w =
     (if is_server_running w then
        and_then (effect (print [py ''Stopping server...''] [] [] True))
       (and_then (send (py ''stop''))
       (and_then (effect (print [py ''Waiting for server to stop...''] [] [] True))
       (and_then (\<lambda>w. case server_process w of
                         None \<Rightarrow> (Inl (Raise (no_attribute ''NoneType'' ''wait'')), w)
                       | Some p \<Rightarrow> (Inr (), act ProcessWait w))
       (and_then (effect (print [py ''Cleaning up server...''] [] [] True))
       (and_then (\<lambda>w. case server_output_thread w of
                         None \<Rightarrow> (Inl (Raise (no_attribute ''NoneType'' ''join'')), w)
                       | Some t \<Rightarrow>
                           (Inr (), act OutputThreadJoin
                                      (w\<lparr>server_output_thread := Some (Thread False)\<rparr>)))
                 (effect (print [py ''Server has stopped.''] [] [] True))))))) w
      else (Inr (), print_error [py ''Server is not running!''] True w))"

definition restart_server :: "env \<Rightarrow> unit call" where
  "restart_server env = and_then stop_server (start_server env)"

subsection \<open>Loading files and running procedures\<close>

definition load_file :: "env \<Rightarrow> pystr \<Rightarrow> unit call" where
  "load_file env path =
     and_then (effect (print [py ''Loading file:'', path] [] [] True))
       (\<lambda>w. case read_file env path of
               Inl e \<Rightarrow> (Inl (Raise e), w)
             | Inr content \<Rightarrow> pipe content w)"

fun load_files :: "env \<Rightarrow> pystr \<Rightarrow> pystr list \<Rightarrow> unit call" where
  "load_files env path [] w = (Inr (), w)"
| "load_files env path (filename # filenames) w =
     and_then (load_file env (path_join env path filename)) (load_files env path filenames) w"

definition load_dir :: "env \<Rightarrow> pystr \<Rightarrow> unit call" where
  "load_dir env path =
     and_then (effect (print [py ''Loading directory:'', path] [] [] True))
       (\<lambda>w. case listdir env path of
               Inl e \<Rightarrow> (Inl (Raise e), w)
             | Inr filenames \<Rightarrow> load_files env path filenames w)"

definition load :: "env \<Rightarrow> pystr \<Rightarrow> unit call" where
  "load env path =
     (if isfile env path then load_file env path
      else if isdir env path then load_dir env path
      else effect (print_error [py ''Cannot load invalid path:'', path] True))"

text \<open>The \<open>for command in run_fn(**params): self.send(str(command))\<close> loop.\<close>

fun send_all :: "pystr list \<Rightarrow> unit call" where
  "send_all [] w = (Inr (), w)"
| "send_all (command # commands) w = and_then (send command) (send_all commands) w"

text \<open>The body of the \<open>try\<close> in \<open>run\<close>.\<close>

definition run_procedure :: "env \<Rightarrow> pystr \<Rightarrow> pystr \<Rightarrow> unit call" where
  "run_procedure env module_name params w =
     (case import_module env module_name of
        Inl e \<Rightarrow> (Inl (Raise e), w)
      | Inr procedure \<Rightarrow>
          (case run_attr procedure of
             None \<Rightarrow> (Inl (Raise (no_attribute ''module'' ''run'')), w)
           | Some run_fn \<Rightarrow>
               (let w1 = print_warning
                           [py ''Running procedure '' @ module_name @ py '' with parameters: '' @ params]
                           True w
                in case run_fn params of
                     Inl e \<Rightarrow> (Inl (Raise e), w1)
                   | Inr (commands, raised) \<Rightarrow>
                       and_then (send_all commands)
                         (\<lambda>w. case raised of None \<Rightarrow> (Inr (), w) | Some e \<Rightarrow> (Inl (Raise e), w))
                         w1)))"

text \<open>
  \<open>run\<close>: \<open>tokens[0]\<close> raises IndexError on an empty argument line; the two \<open>except\<close>
  clauses turn a ModuleNotFoundError and an AttributeError of the body into a message
  (34 is the double quote).
\<close>

definition run :: "env \<Rightarrow> pystr \<Rightarrow> unit call" where
  "run env argline w =
     (case split_maxsplit1 argline of
        [] \<Rightarrow> (Inl (Raise (IndexError ''list index out of range'')), w)
      | module_name # others \<Rightarrow>
          (case (case others of [] \<Rightarrow> Inr (py ''{}'') | p # _ \<Rightarrow> yaml_load env p) of
             Inl e \<Rightarrow> (Inl (Raise e), w)
           | Inr params \<Rightarrow>
               (case run_procedure env module_name params w of
                  (Inr u, w') \<Rightarrow> (Inr u, w')
                | (Inl Blocks, w') \<Rightarrow> (Inl Blocks, w')
                | (Inl (Raise e), w') \<Rightarrow>
                    if isinstance e ''ModuleNotFoundError''
                    then (Inr (), print_error [py ''No such procedure: '' @ module_name] True w')
                    else if isinstance e ''AttributeError''
                    then (Inr (), print_error
                                    [py ''Procedure has no '' @ 34 # py ''run'' @ 34 # py '' method: ''
                                       @ module_name] True w')
                    else (Inl (Raise e), w'))))"

subsection \<open>Console commands\<close>

definition parse_echo_command :: "env \<Rightarrow> pystr \<Rightarrow> unit call" where
  "parse_echo_command env argline = echo argline"

definition parse_send_command :: "env \<Rightarrow> pystr \<Rightarrow> unit call" where
  "parse_send_command env argline = send argline"

definition parse_start_command :: "env \<Rightarrow> pystr \<Rightarrow> unit call" where
  "parse_start_command env argline = start_server env"

definition parse_restart_command :: "env \<Rightarrow> pystr \<Rightarrow> unit call" where
  "parse_restart_command env argline = restart_server env"

definition parse_load_command :: "env \<Rightarrow> pystr \<Rightarrow> unit call" where
  "parse_load_command env argline = load env argline"

definition parse_run_command :: "env \<Rightarrow> pystr \<Rightarrow> unit call" where
  "parse_run_command env argline = run env argline"

text \<open>\<open>self._cmd_map\<close>, in the order of the dictionary literal.\<close>

definition cmd_map :: "(pystr \<times> (env \<Rightarrow> pystr \<Rightarrow> unit call)) list" where
  "cmd_map =
     [(py ''start'', parse_start_command),
      (py ''restart'', parse_restart_command),
      (py ''echo'', parse_echo_command),
      (py ''send'', parse_send_command),
      (py ''>'', parse_send_command),
      (py ''load'', parse_load_command),
      (py ''run'', parse_run_command)]"

subsection \<open>Event handlers\<close>

text \<open>
  A handler returns what the dispatcher tests: whether its return value is true. The
  handlers other than the exit handler return None, which is not. A handler given an
  event without the attribute it reads raises AttributeError.
\<close>

definition returning_None :: "unit call \<Rightarrow> bool call" where
  "returning_None m w = (case m w of (Inl f, w') \<Rightarrow> (Inl f, w') | (Inr u, w') \<Rightarrow> (Inr False, w'))"

text \<open>The name of the class of an event, \<open>type(event).__name__\<close>.\<close>

fun type_name :: "event \<Rightarrow> string" where
  "type_name ExitEvent = ''ExitEvent''"
| "type_name (InputEvent t) = ''InputEvent''"
| "type_name (CommandSequenceJobEvent t c) = ''CommandSequenceJobEvent''"
| "type_name (DirectoryObserverFileChangeEvent p) = ''DirectoryObserverFileChangeEvent''"
| "type_name (OtherObject cls s) = cls"

fun handle_input_event :: "env \<Rightarrow> event \<Rightarrow> bool call" where
  "handle_input_event env (InputEvent input) w =
     (let line = rstrip input;
          tokens = split_maxsplit1 line
      in case tokens of
           [] \<Rightarrow> (Inr False, w)
         | token # others \<Rightarrow>
             (case map_of cmd_map token of
                Some method \<Rightarrow>
                  returning_None (method env (case others of [] \<Rightarrow> [] | argline # _ \<Rightarrow> argline)) w
              | None \<Rightarrow> returning_None (send line) w))"
| "handle_input_event env event w = (Inl (Raise (no_attribute (type_name event) ''to_input'')), w)"

fun handle_command_sequence_job_event :: "env \<Rightarrow> event \<Rightarrow> bool call" where
  "handle_command_sequence_job_event env (CommandSequenceJobEvent t c) w =
     returning_None
       (and_then (effect (print [py ''Running command sequence:'', t] [] [] True)) (pipe c)) w"
| "handle_command_sequence_job_event env event w =
     (Inl (Raise (no_attribute (type_name event) ''title'')), w)"

fun handle_directory_observer_file_change_event :: "env \<Rightarrow> event \<Rightarrow> bool call" where
  "handle_directory_observer_file_change_event env (DirectoryObserverFileChangeEvent p) w =
     returning_None (load_file env p) w"
| "handle_directory_observer_file_change_event env event w =
     (Inl (Raise (no_attribute (type_name event) ''filepath'')), w)"

text \<open>
  \<open>self._input_thread.join()\<close>. The reader thread is alive while it is in its loop,
  waiting in \<open>input()\<close>; it ends only after it has read an exit token, so a join of an
  alive reader does not return.
\<close>

definition input_thread_join :: "unit call" where
  "input_thread_join w =
     (case thread_join False (input_thread w) of
        Inl f \<Rightarrow> (Inl f, w)
      | Inr t \<Rightarrow> (Inr (), act InputThreadJoin (w\<lparr>input_thread := t\<rparr>)))"

text \<open>\<open>job.stop(); job.join()\<close> and \<open>observer.stop(); observer.join()\<close> for the \<open>i\<close>-th one.\<close>

definition stop_join_job :: "nat \<Rightarrow> unit call" where
  "stop_join_job i w =
     (let w1 = act (JobStop i) (w\<lparr>jobs := (jobs w)[i := job_stop (jobs w ! i)]\<rparr>)
      in case job_join (jobs w1 ! i) of
           Inl f \<Rightarrow> (Inl f, w1)
         | Inr j \<Rightarrow> (Inr (), act (JobJoin i) (w1\<lparr>jobs := (jobs w1)[i := j]\<rparr>)))"

definition stop_join_observer :: "nat \<Rightarrow> unit call" where
  "stop_join_observer i w =
     (let w1 = act (ObserverStop i)
                 (w\<lparr>observers := (observers w)[i := observer_stop (observers w ! i)]\<rparr>)
      in case observer_join (observers w1 ! i) of
           Inl f \<Rightarrow> (Inl f, w1)
         | Inr ob \<Rightarrow> (Inr (), act (ObserverJoin i) (w1\<lparr>observers := (observers w1)[i := ob]\<rparr>)))"

text \<open>A \<open>for\<close> loop over the positions of a list, left at the first call that fails.\<close>

fun for_each :: "(nat \<Rightarrow> unit call) \<Rightarrow> nat list \<Rightarrow> unit call" where
  "for_each body [] w = (Inr (), w)"
| "for_each body (i # positions) w = and_then (body i) (for_each body positions) w"

text \<open>\<open>_handle_exit_event\<close>; it does not read its event.\<close>

definition handle_exit_event :: "env \<Rightarrow> event \<Rightarrow> bool call" where
  "handle_exit_event env event w =
     (let w1 = print [py ''Stopping wrapper...''] [] [] True w;
          w2 = print [py ''Cleaning up input...''] [] [] True w1
      in case input_thread_join w2 of
           (Inl f, w3) \<Rightarrow> (Inl f, w3)
         | (Inr u, w3) \<Rightarrow>
             (case (if is_server_running w3 then stop_server w3 else (Inr (), w3)) of
                (Inl f, w4) \<Rightarrow> (Inl f, w4)
              | (Inr u, w4) \<Rightarrow>
                  (let w5 = (if jobs w4 \<noteq> []
                             then print [py ''Cleaning up '' @ str_nat (length (jobs w4))
                                           @ py '' job(s)...''] [] [] True w4
                             else w4)
                   in case for_each stop_join_job [0..<length (jobs w5)] w5 of
                        (Inl f, w6) \<Rightarrow> (Inl f, w6)
                      | (Inr u, w6) \<Rightarrow>
                          (let w7 = (if observers w6 \<noteq> []
                                     then print [py ''Cleaning up '' @ str_nat (length (observers w6))
                                                   @ py '' observer(s)...''] [] [] True w6
                                     else w6)
                           in case for_each stop_join_observer [0..<length (observers w7)] w7 of
                                (Inl f, w8) \<Rightarrow> (Inl f, w8)
                              | (Inr u, w8) \<Rightarrow> (Inr True, w8)))))"

subsection \<open>The dispatcher\<close>

text \<open>\<open>self._event_handler_map\<close>, keyed by the name of the event class.\<close>

definition event_handler_map :: "(string \<times> (env \<Rightarrow> event \<Rightarrow> bool call)) list" where
  "event_handler_map =
     [(''InputEvent'', handle_input_event),
      (''CommandSequenceJobEvent'', handle_command_sequence_job_event),
      (''DirectoryObserverFileChangeEvent'', handle_directory_observer_file_change_event),
      (''ExitEvent'', handle_exit_event)]"

text \<open>
  \<open>str(event)\<close>, as the warning prints it for an object of another class. The event
  classes of the repository each have a handler, so the dispatcher never prints one of
  them; their default \<open>str()\<close> holds an address, of which only the class name is kept.
\<close>

fun event_str :: "event \<Rightarrow> pystr" where
  "event_str (OtherObject cls s) = s"
| "event_str event = py ''<'' @ py (type_name event) @ py '' object>''"

text \<open>
  How a run of the dispatcher thread stands: blocked in \<open>self._event_queue.get()\<close> on an
  empty queue, ended after the exit handler returned true, ended by an exception that
  left \<open>_loop_event_queue\<close>, or inside a handler that does not return.
\<close>

datatype dispatch_status =
    Waiting
  | Stopped
  | Died exc
  | Stuck

text \<open>
  \<open>_loop_event_queue\<close> on the events in the order the queue hands them out. The result
  is the status, the events not taken from the queue, and the wrapper. The \<open>except
  Exception\<close> clause matches instances of Exception only; \<open>e.args[0]\<close> raises IndexError
  inside the clause when \<open>e.args\<close> is empty, and that exception leaves the loop.
\<close>

fun loop_event_queue :: "env \<Rightarrow> event list \<Rightarrow> wrapper \<Rightarrow> dispatch_status \<times> event list \<times> wrapper" where
  "loop_event_queue env [] w = (Waiting, [], w)"
| "loop_event_queue env (event # queue) w =
     (case map_of event_handler_map (type_name event) of
        None \<Rightarrow>
          loop_event_queue env queue
            (print_warning [py ''Ignoring unknown event: '' @ event_str event] True w)
      | Some handler_method \<Rightarrow>
          (case handler_method env event w of
             (Inr stop, w') \<Rightarrow>
               if stop then (Stopped, queue, print [py ''Wrapper has stopped.''] [] [] True w')
               else loop_event_queue env queue w'
           | (Inl Blocks, w') \<Rightarrow> (Stuck, queue, w')
           | (Inl (Raise e), w') \<Rightarrow>
               if isinstance e ''Exception'' then
                 (let w1 = print_error [py ''Event resulted in an error:''] True w';
                      w2 = fold (\<lambda>item. print_color [item] FMT_RED False) (format_tb env e) w1
                  in case args e of
                       [] \<Rightarrow> (Died (IndexError ''tuple index out of range''), queue, w2)
                     | message # _ \<Rightarrow>
                         loop_event_queue env queue (print_color [message] FMT_RED True w2))
               else (Died e, queue, w')))"

subsection \<open>Starting the wrapper and reading the console\<close>

definition input_thread_start :: "unit call" where
  "input_thread_start w =
     (case thread_start (input_thread w) of
        Inl f \<Rightarrow> (Inl f, w)
      | Inr t \<Rightarrow> (Inr (), act InputThreadStart (w\<lparr>input_thread := t\<rparr>)))"

definition event_queue_thread_start :: "unit call" where
  "event_queue_thread_start w =
     (case thread_start (event_queue_thread w) of
        Inl f \<Rightarrow> (Inl f, w)
      | Inr t \<Rightarrow> (Inr (), act EventQueueThreadStart (w\<lparr>event_queue_thread := t\<rparr>)))"

definition start_observer :: "nat \<Rightarrow> unit call" where
  "start_observer i w =
     (case observer_start (observers w ! i) of
        Inl f \<Rightarrow> (Inl f, w)
      | Inr ob \<Rightarrow> (Inr (), act (ObserverStart i) (w\<lparr>observers := (observers w)[i := ob]\<rparr>)))"

definition start_job :: "nat \<Rightarrow> unit call" where
  "start_job i w =
     (case job_start (jobs w ! i) of
        Inl f \<Rightarrow> (Inl f, w)
      | Inr j \<Rightarrow> (Inr (), act (JobStart i) (w\<lparr>jobs := (jobs w)[i := j]\<rparr>)))"

text \<open>\<open>start\<close>: the child, the reader thread, the dispatcher thread, the observers, the jobs.\<close>

definition start :: "env \<Rightarrow> unit call" where
  "start env =
     and_then (start_server env)
    (and_then input_thread_start
    (and_then event_queue_thread_start
    (and_then (\<lambda>w. for_each start_observer [0..<length (observers w)] w)
              (\<lambda>w. for_each start_job [0..<length (jobs w)] w))))"

definition EXIT_TOKENS :: "pystr list" where
  "EXIT_TOKENS = [py ''exit'', py ''x'']"

text \<open>
  \<open>_loop_input\<close> on the lines the console gives it, and the run of the reader thread.
  Each line is stripped; an exit token makes the reader put an ExitEvent (\<open>exit\<close>) and
  leave the loop, any other line is put as an InputEvent. The result is the events put
  on the queue and whether the loop was left; when the lines are used up the reader
  waits in \<open>input()\<close>. The thread has ended when its target has returned.
\<close>

fun loop_input :: "pystr list \<Rightarrow> event list \<times> bool" where
  "loop_input [] = ([], False)"
| "loop_input (line # lines) =
     (let inp = strip line
      in if inp \<in> set EXIT_TOKENS then ([ExitEvent], True)
         else (let (events, left) = loop_input lines in (InputEvent inp # events, left)))"

definition input_thread_run :: "pystr list \<Rightarrow> wrapper \<Rightarrow> event list \<times> wrapper" where
  "input_thread_run lines w =
     (if input_thread w = Alive
      then (let (events, left) = loop_input lines
            in (events, if left then w\<lparr>input_thread := Finished\<rparr> else w))
      else ([], w))"

subsection \<open>Life cycle of the child as seen from outside\<close>

text \<open>
  The three things that change whether a child is running: a call of \<open>start_server\<close>, a
  call of \<open>stop_server\<close>, and the relay thread reaching the end of the child's output
  (after printing the lines still to come). The last one is not a call of the wrapper;
  it can only happen while the relay thread is alive.
\<close>

datatype lifecycle =
    Start
  | Stop
  | OutputEnds "pystr list"

fun lifecycle_step :: "env \<Rightarrow> lifecycle \<Rightarrow> wrapper \<Rightarrow> wrapper" where
  "lifecycle_step env Start w = snd (start_server env w)"
| "lifecycle_step env Stop w = snd (stop_server w)"
| "lifecycle_step env (OutputEnds lines) w =
     (if is_server_running w then output_thread_run lines w else w)"

text \<open>
  The state flag the specification asks for, in its words: set by a successful
  \<open>start\<close>, cleared when the matching \<open>stop\<close> completes, and changed by nothing else.
  \<open>spawns\<close> says whether spawning the child succeeds.
\<close>

fun spec_isRunning_step :: "bool \<Rightarrow> lifecycle \<Rightarrow> bool \<Rightarrow> bool" where
  "spec_isRunning_step spawns Start running = (running \<or> spawns)"
| "spec_isRunning_step spawns Stop running = False"
| "spec_isRunning_step spawns (OutputEnds lines) running = running"

text \<open>The same flag, also cleared when the relay thread ends.\<close>

fun thread_isRunning_step :: "bool \<Rightarrow> lifecycle \<Rightarrow> bool \<Rightarrow> bool" where
  "thread_isRunning_step spawns Start running = (running \<or> spawns)"
| "thread_isRunning_step spawns Stop running = False"
| "thread_isRunning_step spawns (OutputEnds lines) running = False"

text \<open>The calls in a trace that are not prints.\<close>

fun is_Print :: "action \<Rightarrow> bool" where
  "is_Print (Print s f) = True"
| "is_Print a = False"

definition calls :: "wrapper \<Rightarrow> action list" where
  "calls w = filter (\<lambda>a. \<not> is_Print a) (trace w)"

section \<open>A concrete configuration\<close>

text \<open>
  The job of the example scenario (title \<open>ping\<close>, delay 1, two groups of one command
  each), an observer, a wrapper that owns both, and an environment in which the child
  can be spawned, every procedure raises \<open>RuntimeError()\<close>, an exception without
  arguments, and a traceback is one line.
\<close>

definition example_groups :: "pystr list list" where
  "example_groups = [[py ''say hi''], [py ''say bye'']]"

definition example_job :: job where
  "example_job =
     \<lparr> job_title = py ''ping'', job_delay = 1, job_length = 2, job_index = 0,
       job_command_texts = [py ''say hi'' @ py ''\<newline>'', py ''say bye'' @ py ''\<newline>''],
       job_stop_event = False, job_thread = Unstarted \<rparr>"

definition example_observer :: observer where
  "example_observer = DirectoryObserver_init (py ''datapacks'') True"

definition example_env :: env where
  "example_env =
     \<lparr> popen = (\<lambda>argv. None),
       format_tb = (\<lambda>e. [py ''  File boom.py, line 2, in run'' @ py ''\<newline>'']),
       isfile = (\<lambda>p. False),
       isdir = (\<lambda>p. False),
       listdir = (\<lambda>p. Inr []),
       path_join = (\<lambda>a b. a @ py ''/'' @ b),
       read_file = (\<lambda>p. Inr []),
       yaml_load = (\<lambda>s. Inr s),
       import_module = (\<lambda>name. Inr (Module (Some (\<lambda>params.
          Inl (Exc [''RuntimeError'', ''Exception'', ''BaseException''] []))))) \<rparr>"

definition example_wrapper :: wrapper where
  "example_wrapper =
     MCServerWrapper_init (py ''java -jar minecraft_server.jar nogui'') [example_job] [example_observer]"

definition example_running :: wrapper where
  "example_running = snd (start_server example_env example_wrapper)"

text \<open>
  The same wrapper after \<open>start\<close>; after the console has then given the line \<open>exit\<close>
  to the reader; and after \<open>start\<close> when the child has closed its standard input.
\<close>

definition example_started :: wrapper where
  "example_started = snd (start example_env example_wrapper)"


definition example_closed :: wrapper where
  "example_closed = stdin_closes example_started"

section \<open>Strings\<close>

lemma rstrip_all_space: "\<forall>c\<in>set s. py_isspace c \<Longrightarrow> rstrip s = []"
  by (simp add: rstrip_def)

lemma split_maxsplit1_Nil [simp]: "split_maxsplit1 [] = []"
  by (simp add: split_maxsplit1_def)

text \<open>
  A line that is some whitespace, a token, and a rest that is empty or starts with
  whitespace splits into the token and the rest without its leading whitespace.
\<close>

lemma split_maxsplit1_token:
  assumes lead: "\<forall>c\<in>set lead. py_isspace c"
    and tok: "tok \<noteq> []" "\<forall>c\<in>set tok. \<not> py_isspace c"
    and rest: "rest = [] \<or> py_isspace (hd rest)"
  shows "split_maxsplit1 (lead @ tok @ rest) =
     (if dropWhile py_isspace rest = [] then [tok] else [tok, dropWhile py_isspace rest])"
proof -
  have hd_tok: "\<not> py_isspace (hd tok)" using tok by (cases tok) auto
  have d1: "dropWhile py_isspace (lead @ tok @ rest) = tok @ rest"
    using lead tok hd_tok by (cases tok) (simp_all add: dropWhile_append2)
  have t: "takeWhile (\<lambda>c. \<not> py_isspace c) (tok @ rest) = tok"
    using tok rest by (cases rest) (simp_all add: takeWhile_append2)
  have d2: "dropWhile (\<lambda>c. \<not> py_isspace c) (tok @ rest) = rest"
    using tok rest by (cases rest) (simp_all add: dropWhile_append2)
  show ?thesis
    using tok by (simp add: split_maxsplit1_def d1 t d2 Let_def)
qed

text \<open>Every line that is not blank has such a decomposition.\<close>

lemma input_line_decomposition:
  assumes "\<exists>c\<in>set input. \<not> py_isspace c"
  shows "\<exists>lead tok rest. rstrip input = lead @ tok @ rest
     \<and> (\<forall>c\<in>set lead. py_isspace c) \<and> tok \<noteq> [] \<and> (\<forall>c\<in>set tok. \<not> py_isspace c)
     \<and> (rest = [] \<or> py_isspace (hd rest))"
proof -
  define line where "line = rstrip input"
  define body where "body = dropWhile py_isspace line"
  define tail where "tail = dropWhile py_isspace (rev input)"
  have tail: "tail \<noteq> []"
    using assms by (simp add: tail_def dropWhile_eq_Nil_conv)
  then have "\<not> py_isspace (hd tail)"
    unfolding tail_def by (rule hd_dropWhile)
  then have "\<not> py_isspace (last line)" and line: "line \<noteq> []"
    using tail by (simp_all add: line_def rstrip_def tail_def [symmetric] last_rev)
  then have "last line \<in> set line" "\<not> py_isspace (last line)"
    by simp_all
  then have "\<not> (\<forall>c\<in>set line. py_isspace c)"
    by blast
  then have body: "body \<noteq> []"
    by (simp add: body_def dropWhile_eq_Nil_conv)
  then have "\<not> py_isspace (hd body)"
    unfolding body_def by (rule hd_dropWhile)
  then have tok: "takeWhile (\<lambda>c. \<not> py_isspace c) body \<noteq> []"
    using body by (cases body) simp_all
  have rest: "dropWhile (\<lambda>c. \<not> py_isspace c) body = []
      \<or> py_isspace (hd (dropWhile (\<lambda>c. \<not> py_isspace c) body))"
  proof (cases "dropWhile (\<lambda>c. \<not> py_isspace c) body = []")
    case True
    then show ?thesis by simp
  next
    case False
    then have "\<not> \<not> py_isspace (hd (dropWhile (\<lambda>c. \<not> py_isspace c) body))"
      by (rule hd_dropWhile)
    then show ?thesis by simp
  qed
  have decomp: "line = takeWhile py_isspace line @ takeWhile (\<lambda>c. \<not> py_isspace c) body
      @ dropWhile (\<lambda>c. \<not> py_isspace c) body"
    by (simp add: body_def)
  have l1: "\<forall>c\<in>set (takeWhile py_isspace line). py_isspace c"
    by (auto dest: set_takeWhileD)
  have l2: "\<forall>c\<in>set (takeWhile (\<lambda>c. \<not> py_isspace c) body). \<not> py_isspace c"
    by (auto dest: set_takeWhileD)
  show ?thesis
    unfolding line_def [symmetric]
    apply (rule exI [where x = "takeWhile py_isspace line"])
    apply (rule exI [where x = "takeWhile (\<lambda>c. \<not> py_isspace c) body"])
    apply (rule exI [where x = "dropWhile (\<lambda>c. \<not> py_isspace c) body"])
    using decomp l1 tok l2 rest apply (intro conjI)
        apply assumption+
    done
qed

section \<open>The timer loop\<close>

lemma getitem_in_range: "0 \<le> i \<Longrightarrow> i < int (length xs) \<Longrightarrow> getitem xs i = Inr (xs ! nat i)"
  by (simp add: getitem_def)

lemma loop_interval_stopped: "job_stop_event j \<Longrightarrow> loop_interval waits j = ([], Exited, j)"
  by (simp add: loop_interval.simps)

lemma loop_interval_Nil: "\<not> job_stop_event j \<Longrightarrow> loop_interval [] j = ([], Looping, j)"
  by (simp add: loop_interval.simps)

lemma loop_interval_Cons:
  "\<not> job_stop_event j \<Longrightarrow> job_inv j \<Longrightarrow>
   loop_interval (w # ws) j =
     (let j' = j\<lparr>job_index := (job_index j + 1) mod int (job_length j), job_stop_event := w\<rparr>;
          (acts, status, j'') = loop_interval ws j'
      in (QueuePut (CommandSequenceJobEvent (job_title j) (job_command_texts j ! nat (job_index j)))
            # StopEventWait (job_delay j) # acts, status, j''))"
  by (subst loop_interval.simps) (simp add: job_inv_def getitem_in_range)

lemma job_inv_step:
  "job_inv j \<Longrightarrow>
   job_inv (j\<lparr>job_index := (job_index j + 1) mod int (job_length j), job_stop_event := w\<rparr>)"
  by (simp add: job_inv_def)

text \<open>
  A run of the loop from a job that is not stopped: one firing for each iteration, the
  \<open>k\<close>-th one for the group at \<open>(index + k) mod length\<close>.
\<close>

lemma loop_interval_run:
  "\<not> job_stop_event j \<Longrightarrow> job_inv j \<Longrightarrow>
   loop_interval waits j =
     (concat (map (firing j) [0..<iterations waits]),
      (if True \<in> set waits then Exited else Looping),
      j\<lparr>job_index := (job_index j + int (iterations waits)) mod int (job_length j),
        job_stop_event := (True \<in> set waits)\<rparr>)"
proof (induction waits arbitrary: j)
  case Nil
  then show ?case by (simp add: loop_interval_Nil job_inv_def)
next
  case (Cons w ws)
  let ?j' = "j\<lparr>job_index := (job_index j + 1) mod int (job_length j), job_stop_event := w\<rparr>"
  have inv': "job_inv ?j'" using Cons.prems by (simp add: job_inv_step)
  have first: "firing j 0 =
      [QueuePut (CommandSequenceJobEvent (job_title j) (job_command_texts j ! nat (job_index j))),
       StopEventWait (job_delay j)]"
    using Cons.prems by (simp add: firing_def job_inv_def)
  show ?case
  proof (cases w)
    case True
    then show ?thesis
      using Cons.prems first by (simp add: loop_interval_Cons loop_interval_stopped)
  next
    case False
    have shift: "firing ?j' k = firing j (Suc k)" for k
      by (simp add: firing_def mod_add_left_eq add.assoc)
    have idx: "((job_index j + 1) mod int (job_length j) + int n) mod int (job_length j)
        = (job_index j + int (Suc n)) mod int (job_length j)" for n
      by (simp add: mod_add_left_eq add.assoc)
    have "loop_interval ws ?j' =
       (concat (map (firing ?j') [0..<iterations ws]),
        (if True \<in> set ws then Exited else Looping),
        ?j'\<lparr>job_index := (job_index ?j' + int (iterations ws)) mod int (job_length ?j'),
          job_stop_event := (True \<in> set ws)\<rparr>)"
      using False inv' by (intro Cons.IH) simp_all
    moreover have "map (firing j) [0..<Suc (iterations ws)]
        = firing j 0 # map (firing ?j') [0..<iterations ws]"
      by (simp add: map_upt_Suc shift del: upt_Suc)
    ultimately show ?thesis
      using Cons.prems False first idx[of "iterations ws"]
      by (simp add: loop_interval_Cons del: upt_Suc)
  qed
qed

text \<open>What \<open>__init__\<close> builds from a non-empty list of groups.\<close>

lemma CommandSequenceJob_init_groups:
  assumes "groups \<noteq> []"
  shows "CommandSequenceJob_init title_arg delay index groups =
     Inr \<lparr> job_title = title_arg, job_delay = delay, job_length = length groups,
           job_index = index mod int (length groups),
           job_command_texts =
             map (\<lambda>commands. join (py ''\<newline>'') commands @ py ''\<newline>'') groups,
           job_stop_event = False, job_thread = Unstarted \<rparr>"
  using assms by (simp add: CommandSequenceJob_init_def Let_def)

section \<open>Fields, traces and calls\<close>

lemma act_fields [simp]:
  "program (act a w) = program w"
  "jobs (act a w) = jobs w"
  "observers (act a w) = observers w"
  "server_input_lock (act a w) = server_input_lock w"
  "event_queue_thread (act a w) = event_queue_thread w"
  "input_thread (act a w) = input_thread w"
  "server_process (act a w) = server_process w"
  "server_output_thread (act a w) = server_output_thread w"
  "trace (act a w) = trace w @ [a]"
  by (simp_all add: act_def)

lemma print_fields [simp]:
  "program (print items prefix suffix newline w) = program w"
  "jobs (print items prefix suffix newline w) = jobs w"
  "observers (print items prefix suffix newline w) = observers w"
  "server_input_lock (print items prefix suffix newline w) = server_input_lock w"
  "event_queue_thread (print items prefix suffix newline w) = event_queue_thread w"
  "input_thread (print items prefix suffix newline w) = input_thread w"
  "server_process (print items prefix suffix newline w) = server_process w"
  "server_output_thread (print items prefix suffix newline w) = server_output_thread w"
  by (simp_all add: print_def Let_def)

lemma is_server_running_act [simp]: "is_server_running (act a w) = is_server_running w"
  by (simp add: is_server_running_def)

lemma is_server_running_print [simp]:
  "is_server_running (print items prefix suffix newline w) = is_server_running w"
  by (simp add: is_server_running_def)

lemma is_server_running_update [simp]:
  "is_server_running (w\<lparr>jobs := js\<rparr>) = is_server_running w"
  "is_server_running (w\<lparr>observers := obs\<rparr>) = is_server_running w"
  "is_server_running (w\<lparr>server_input_lock := l\<rparr>) = is_server_running w"
  "is_server_running (w\<lparr>input_thread := t\<rparr>) = is_server_running w"
  "is_server_running (w\<lparr>event_queue_thread := t\<rparr>) = is_server_running w"
  "is_server_running (w\<lparr>server_process := p\<rparr>) = is_server_running w"
  by (simp_all add: is_server_running_def)

lemma calls_act: "calls (act a w) = calls w @ (if is_Print a then [] else [a])"
  by (simp add: calls_def)

lemma calls_print [simp]: "calls (print items prefix suffix newline w) = calls w"
  by (simp add: calls_def print_def Let_def)

lemma calls_update [simp]:
  "calls (w\<lparr>jobs := js\<rparr>) = calls w"
  "calls (w\<lparr>observers := obs\<rparr>) = calls w"
  "calls (w\<lparr>server_input_lock := l\<rparr>) = calls w"
  "calls (w\<lparr>input_thread := t\<rparr>) = calls w"
  "calls (w\<lparr>event_queue_thread := t\<rparr>) = calls w"
  "calls (w\<lparr>server_output_thread := th\<rparr>) = calls w"
  "calls (w\<lparr>server_process := p\<rparr>) = calls w"
  by (simp_all add: calls_def)

lemma calls_trace_append:
  "calls (w\<lparr>trace := trace w @ xs\<rparr>) = calls w @ filter (\<lambda>a. \<not> is_Print a) xs"
  by (simp add: calls_def)

lemma print_error_fields [simp]:
  "program (print_error items newline w) = program w"
  "jobs (print_error items newline w) = jobs w"
  "observers (print_error items newline w) = observers w"
  "server_input_lock (print_error items newline w) = server_input_lock w"
  "event_queue_thread (print_error items newline w) = event_queue_thread w"
  "input_thread (print_error items newline w) = input_thread w"
  "server_process (print_error items newline w) = server_process w"
  "server_output_thread (print_error items newline w) = server_output_thread w"
  "is_server_running (print_error items newline w) = is_server_running w"
  "calls (print_error items newline w) = calls w"
  by (simp_all add: print_error_def print_color_def)

lemma print_error_eq:
  "print_error [msg] True w =
     w\<lparr>trace := trace w @ [Print (FMT_RED @ msg @ FMT_RESET @ py ''\<newline>'') False]\<rparr>"
  by (simp add: print_error_def print_color_def print_def act_def)

lemma lock_free_update: "\<not> server_input_lock w \<Longrightarrow> w\<lparr>server_input_lock := False\<rparr> = w"
  by (cases w) simp

lemma write_server_ready:
  assumes "is_server_running w" and "stdin_ready w"
  shows "write_server data w =
     (Inr (), w\<lparr>trace := trace w @ [LockAcquire, StdinWrite data, StdinFlush, LockRelease]\<rparr>)"
proof -
  have lock: "\<not> server_input_lock w" using assms(2) by (simp add: stdin_ready_def)
  obtain p where p: "server_process w = Some p" "stdin_write_error p = None" "stdin_flush_error p = None"
    using assms(2) by (auto simp: stdin_ready_def split: option.splits)
  have "write_server data w =
     (Inr (), (w\<lparr>server_input_lock := False\<rparr>)
        \<lparr>trace := trace w @ [LockAcquire, StdinWrite data, StdinFlush, LockRelease]\<rparr>)"
    using assms(1) lock p by (simp add: write_server_def act_def Let_def)
  then show ?thesis using lock by (simp add: lock_free_update)
qed

lemma send_running:
  assumes "is_server_running w" and "stdin_ready w"
  shows "send data w =
     (Inr (), w\<lparr>trace := trace w @ [LockAcquire, StdinWrite (data @ py ''\<newline>''), StdinFlush, LockRelease]\<rparr>)"
  using assms by (simp add: send_def pipe_def write_server_ready)

section \<open>Starting and stopping the child\<close>

lemma start_server_not_running:
  assumes "\<not> is_server_running w"
  shows "start_server env w =
     (case popen env (split (program w)) of
        Some e \<Rightarrow> (Inl (Raise e), print [py ''Starting server...''] [] [] True w)
      | None \<Rightarrow> (Inr (), act OutputThreadStart (act (Popen (split (program w)))
            (print [py ''Starting server...''] [] [] True w)
              \<lparr>server_process := Some (Process (split (program w)) None None),
               server_output_thread := Some (Thread True)\<rparr>)))"
  using assms by (simp add: start_server_def Let_def act_def split: option.splits)

text \<open>A running child whose pipe takes the write is stopped, and the call returns.\<close>

lemma stop_server_running:
  assumes "is_server_running w" and "stdin_ready w"
  shows "\<exists>w'. stop_server w = (Inr (), w')
     \<and> calls w' = calls w @ [LockAcquire, StdinWrite (py ''stop'' @ py ''\<newline>''), StdinFlush, LockRelease,
                               ProcessWait, OutputThreadJoin]
     \<and> server_output_thread w' = Some (Thread False)
     \<and> server_process w' = server_process w
     \<and> server_input_lock w' = server_input_lock w
     \<and> input_thread w' = input_thread w
     \<and> event_queue_thread w' = event_queue_thread w
     \<and> program w' = program w \<and> jobs w' = jobs w \<and> observers w' = observers w"
proof -
  have r: "is_server_running (print [py ''Stopping server...''] [] [] True w)"
    and s: "stdin_ready (print [py ''Stopping server...''] [] [] True w)"
    using assms by (simp_all add: stdin_ready_def)
  obtain p where p: "server_process w = Some p"
    using assms(2) by (auto simp: stdin_ready_def split: option.splits)
  obtain t where t: "server_output_thread w = Some t"
    using assms(1) by (auto simp: is_server_running_def split: option.splits)
  show ?thesis
    using assms(1) p t
    by (simp add: stop_server_def and_then_def effect_def send_running [OF r s] calls_act
        calls_trace_append)
qed

lemma stdin_open_ready: "stdin_open w \<Longrightarrow> is_server_running w \<Longrightarrow> stdin_ready w"
  by (auto simp: stdin_open_def stdin_ready_def split: option.splits)

lemma stdin_open_print [simp]:
  "stdin_open (print items prefix suffix newline w) = stdin_open w"
  "stdin_open (print_error items newline w) = stdin_open w"
  by (simp_all add: stdin_open_def split: option.splits)

lemma lifecycle_Start:
  shows "is_server_running (lifecycle_step env Start w)
     = (is_server_running w \<or> popen env (split (program w)) = None)"
    and "program (lifecycle_step env Start w) = program w"
    and "stdin_open w \<Longrightarrow> stdin_open (lifecycle_step env Start w)"
proof -
  show "is_server_running (lifecycle_step env Start w)
     = (is_server_running w \<or> popen env (split (program w)) = None)"
  proof (cases "is_server_running w")
    case True
    then show ?thesis by (simp add: start_server_def)
  next
    case False
    then show ?thesis
      by (cases "popen env (split (program w))")
         (simp_all add: start_server_not_running is_server_running_def)
  qed
  show "program (lifecycle_step env Start w) = program w"
  proof (cases "is_server_running w")
    case True
    then show ?thesis by (simp add: start_server_def)
  next
    case False
    then show ?thesis
      by (cases "popen env (split (program w))") (simp_all add: start_server_not_running)
  qed
  show "stdin_open (lifecycle_step env Start w)" if "stdin_open w"
  proof (cases "is_server_running w")
    case True
    then show ?thesis using that by (simp add: start_server_def)
  next
    case False
    then show ?thesis using that
      by (cases "popen env (split (program w))")
         (simp_all add: start_server_not_running stdin_open_def split: option.splits)
  qed
qed

lemma lifecycle_Stop:
  assumes "stdin_open w"
  shows "\<not> is_server_running (lifecycle_step env Stop w)"
    and "program (lifecycle_step env Stop w) = program w"
    and "stdin_open (lifecycle_step env Stop w)"
proof -
  have "\<not> is_server_running (lifecycle_step env Stop w)
      \<and> program (lifecycle_step env Stop w) = program w
      \<and> stdin_open (lifecycle_step env Stop w)"
  proof (cases "is_server_running w")
    case True
    then have "stdin_ready w" using assms by (simp add: stdin_open_ready)
    from stop_server_running [OF True this] obtain w' where
      "stop_server w = (Inr (), w')" "server_output_thread w' = Some (Thread False)"
      "server_process w' = server_process w" "server_input_lock w' = server_input_lock w"
      "program w' = program w"
      by blast
    then show ?thesis using assms
      by (auto simp: is_server_running_def stdin_open_def split: option.splits)
  next
    case False
    then show ?thesis using assms by (simp add: stop_server_def)
  qed
  then show "\<not> is_server_running (lifecycle_step env Stop w)"
    and "program (lifecycle_step env Stop w) = program w"
    and "stdin_open (lifecycle_step env Stop w)"
    by simp_all
qed

lemma loop_server_output_fields [simp]:
  "program (loop_server_output lines w) = program w"
  "server_process (loop_server_output lines w) = server_process w"
  "server_input_lock (loop_server_output lines w) = server_input_lock w"
  unfolding loop_server_output_def
  by (induction lines arbitrary: w) (simp_all add: print_server_def print_color_def)

lemma lifecycle_OutputEnds:
  "\<not> is_server_running (lifecycle_step env (OutputEnds lines) w)"
  "program (lifecycle_step env (OutputEnds lines) w) = program w"
  "stdin_open w \<Longrightarrow> stdin_open (lifecycle_step env (OutputEnds lines) w)"
  by (simp_all add: output_thread_run_def is_server_running_def stdin_open_def
      split: option.splits)

lemma lifecycle_invariant:
  "program (fold (lifecycle_step env) ops (MCServerWrapper_init prog js os)) = prog
   \<and> stdin_open (fold (lifecycle_step env) ops (MCServerWrapper_init prog js os))
   \<and> is_server_running (fold (lifecycle_step env) ops (MCServerWrapper_init prog js os))
       = fold (thread_isRunning_step (popen env (split prog) = None)) ops False"
proof (induction ops rule: rev_induct)
  case Nil
  then show ?case by (simp add: MCServerWrapper_init_def is_server_running_def stdin_open_def)
next
  case (snoc op ops)
  define w where "w = fold (lifecycle_step env) ops (MCServerWrapper_init prog js os)"
  have IH: "program w = prog" "stdin_open w"
    "is_server_running w = fold (thread_isRunning_step (popen env (split prog) = None)) ops False"
    using snoc by (simp_all add: w_def)
  show ?case
  proof (cases op)
    case Start
    then show ?thesis
      using IH lifecycle_Start [where w = w and env = env] by (simp add: w_def [symmetric])
  next
    case Stop
    then show ?thesis
      using IH lifecycle_Stop [where w = w and env = env] by (simp add: w_def [symmetric])
  next
    case (OutputEnds lines)
    then show ?thesis
      using IH lifecycle_OutputEnds [where w = w and env = env and lines = lines]
      by (simp add: w_def [symmetric])
  qed
qed

section \<open>The exit handler\<close>

lemma for_each_append:
  "for_each body (xs @ ys) w = and_then (for_each body xs) (for_each body ys) w"
  by (induction xs arbitrary: w) (simp_all add: and_then_def split: prod.splits sum.splits)

lemma job_join_started:
  assumes "job_thread j \<noteq> Unstarted"
  shows "job_join (job_stop j) = Inr ((job_stop j)\<lparr>job_thread := Finished\<rparr>)"
  using assms by (cases "job_thread j") (simp_all add: job_join_def job_stop_def thread_join_def)

lemma observer_join_started:
  assumes "observer_thread ob \<noteq> Unstarted"
  shows "observer_join (observer_stop ob) = Inr ((observer_stop ob)\<lparr>observer_thread := Finished\<rparr>)"
  using assms
  by (cases "observer_thread ob") (simp_all add: observer_join_def observer_stop_def thread_join_def)

lemma stop_join_job_started:
  assumes "i < length (jobs w)" and "job_thread (jobs w ! i) \<noteq> Unstarted"
  shows "stop_join_job i w =
     (Inr (), act (JobJoin i) (act (JobStop i)
        (w\<lparr>jobs := (jobs w)[i := (job_stop (jobs w ! i))\<lparr>job_thread := Finished\<rparr>]\<rparr>)))"
  using assms by (simp add: stop_join_job_def Let_def job_join_started act_def)

lemma stop_join_observer_started:
  assumes "i < length (observers w)" and "observer_thread (observers w ! i) \<noteq> Unstarted"
  shows "stop_join_observer i w =
     (Inr (), act (ObserverJoin i) (act (ObserverStop i)
        (w\<lparr>observers :=
             (observers w)[i := (observer_stop (observers w ! i))\<lparr>observer_thread := Finished\<rparr>]\<rparr>)))"
  using assms by (simp add: stop_join_observer_def Let_def observer_join_started act_def)

lemma for_each_stop_join_job:
  assumes "n \<le> length (jobs w)" and "\<forall>j\<in>set (jobs w). job_thread j \<noteq> Unstarted"
  shows "\<exists>w'. for_each stop_join_job [0..<n] w = (Inr (), w')
     \<and> calls w' = calls w @ concat (map (\<lambda>i. [JobStop i, JobJoin i]) [0..<n])
     \<and> jobs w' = map (\<lambda>j. (job_stop j)\<lparr>job_thread := Finished\<rparr>) (take n (jobs w)) @ drop n (jobs w)
     \<and> observers w' = observers w
     \<and> server_output_thread w' = server_output_thread w"
  using assms(1)
proof (induction n)
  case 0
  then show ?case by simp
next
  case (Suc n)
  then obtain w1 where w1: "for_each stop_join_job [0..<n] w = (Inr (), w1)"
    "calls w1 = calls w @ concat (map (\<lambda>i. [JobStop i, JobJoin i]) [0..<n])"
    "jobs w1 = map (\<lambda>j. (job_stop j)\<lparr>job_thread := Finished\<rparr>) (take n (jobs w)) @ drop n (jobs w)"
    "observers w1 = observers w" "server_output_thread w1 = server_output_thread w"
    by auto
  have n: "n < length (jobs w)" using Suc.prems by simp
  then have nth: "jobs w1 ! n = jobs w ! n"
    by (simp add: w1(3) nth_append)
  have len: "n < length (jobs w1)" using n by (simp add: w1(3))
  have started: "job_thread (jobs w1 ! n) \<noteq> Unstarted"
    using assms(2) n nth by simp
  have step: "stop_join_job n w1 =
     (Inr (), act (JobJoin n) (act (JobStop n)
        (w1\<lparr>jobs := (jobs w1)[n := (job_stop (jobs w1 ! n))\<lparr>job_thread := Finished\<rparr>]\<rparr>)))"
    using len started by (rule stop_join_job_started)
  have jobs': "(jobs w1)[n := (job_stop (jobs w1 ! n))\<lparr>job_thread := Finished\<rparr>]
      = map (\<lambda>j. (job_stop j)\<lparr>job_thread := Finished\<rparr>) (take (Suc n) (jobs w)) @ drop (Suc n) (jobs w)"
    using n unfolding nth
    by (simp add: w1(3) take_Suc_conv_app_nth list_update_append Cons_nth_drop_Suc [symmetric])
  have "for_each stop_join_job [0..<Suc n] w = and_then (for_each stop_join_job [0..<n])
      (for_each stop_join_job [n]) w"
    by (simp add: for_each_append [symmetric])
  then have "for_each stop_join_job [0..<Suc n] w =
     (Inr (), act (JobJoin n) (act (JobStop n)
        (w1\<lparr>jobs := (jobs w1)[n := (job_stop (jobs w1 ! n))\<lparr>job_thread := Finished\<rparr>]\<rparr>)))"
    by (simp add: and_then_def w1(1) step)
  then show ?case
    using w1 jobs' by (simp add: calls_act)
qed

lemma for_each_stop_join_observer:
  assumes "n \<le> length (observers w)" and "\<forall>ob\<in>set (observers w). observer_thread ob \<noteq> Unstarted"
  shows "\<exists>w'. for_each stop_join_observer [0..<n] w = (Inr (), w')
     \<and> calls w' = calls w @ concat (map (\<lambda>i. [ObserverStop i, ObserverJoin i]) [0..<n])
     \<and> observers w' = map (\<lambda>ob. (observer_stop ob)\<lparr>observer_thread := Finished\<rparr>) (take n (observers w))
          @ drop n (observers w)
     \<and> jobs w' = jobs w
     \<and> server_output_thread w' = server_output_thread w"
  using assms(1)
proof (induction n)
  case 0
  then show ?case by simp
next
  case (Suc n)
  then obtain w1 where w1: "for_each stop_join_observer [0..<n] w = (Inr (), w1)"
    "calls w1 = calls w @ concat (map (\<lambda>i. [ObserverStop i, ObserverJoin i]) [0..<n])"
    "observers w1 = map (\<lambda>ob. (observer_stop ob)\<lparr>observer_thread := Finished\<rparr>) (take n (observers w))
          @ drop n (observers w)"
    "jobs w1 = jobs w" "server_output_thread w1 = server_output_thread w"
    by auto
  have n: "n < length (observers w)" using Suc.prems by simp
  then have nth: "observers w1 ! n = observers w ! n"
    by (simp add: w1(3) nth_append)
  have len: "n < length (observers w1)" using n by (simp add: w1(3))
  have started: "observer_thread (observers w1 ! n) \<noteq> Unstarted"
    using assms(2) n nth by simp
  have step: "stop_join_observer n w1 =
     (Inr (), act (ObserverJoin n) (act (ObserverStop n)
        (w1\<lparr>observers :=
             (observers w1)[n := (observer_stop (observers w1 ! n))\<lparr>observer_thread := Finished\<rparr>]\<rparr>)))"
    using len started by (rule stop_join_observer_started)
  have obs': "(observers w1)[n := (observer_stop (observers w1 ! n))\<lparr>observer_thread := Finished\<rparr>]
      = map (\<lambda>ob. (observer_stop ob)\<lparr>observer_thread := Finished\<rparr>) (take (Suc n) (observers w))
          @ drop (Suc n) (observers w)"
    using n unfolding nth
    by (simp add: w1(3) take_Suc_conv_app_nth list_update_append Cons_nth_drop_Suc [symmetric])
  have "for_each stop_join_observer [0..<Suc n] w = and_then (for_each stop_join_observer [0..<n])
      (for_each stop_join_observer [n]) w"
    by (simp add: for_each_append [symmetric])
  then have "for_each stop_join_observer [0..<Suc n] w =
     (Inr (), act (ObserverJoin n) (act (ObserverStop n)
        (w1\<lparr>observers :=
             (observers w1)[n := (observer_stop (observers w1 ! n))\<lparr>observer_thread := Finished\<rparr>]\<rparr>)))"
    by (simp add: and_then_def w1(1) step)
  then show ?case
    using w1 obs' by (simp add: calls_act)
qed

lemma input_thread_join_Finished:
  "input_thread w = Finished \<Longrightarrow> input_thread_join w = (Inr (), act InputThreadJoin w)"
  by (cases w) (simp add: input_thread_join_def thread_join_def act_def)


lemma input_thread_join_Unstarted:
  "input_thread w = Unstarted \<Longrightarrow>
   input_thread_join w = (Inl (Raise (RuntimeError ''cannot join thread before it is started'')), w)"
  by (simp add: input_thread_join_def thread_join_def)

section \<open>The input handler\<close>

lemma map_of_cmd_map:
  "map_of cmd_map tok =
     (if tok = py ''start'' then Some parse_start_command
      else if tok = py ''restart'' then Some parse_restart_command
      else if tok = py ''echo'' then Some parse_echo_command
      else if tok = py ''send'' then Some parse_send_command
      else if tok = py ''>'' then Some parse_send_command
      else if tok = py ''load'' then Some parse_load_command
      else if tok = py ''run'' then Some parse_run_command
      else None)"
  by (simp add: cmd_map_def)

lemma handle_input_event_tokens:
  assumes "split_maxsplit1 (rstrip input) = tok # (if arg = [] then [] else [arg])"
  shows "handle_input_event env (InputEvent input) w =
     (case map_of cmd_map tok of
        Some method \<Rightarrow> returning_None (method env arg) w
      | None \<Rightarrow> returning_None (send (rstrip input)) w)"
  using assms by (cases "arg = []") (simp_all add: Let_def split: option.splits)

section \<open>The dispatcher\<close>

text \<open>The \<open>except\<close> clause of the dispatcher, for a handler that raised an instance of Exception.\<close>

lemma loop_event_queue_handler_raises:
  assumes "map_of event_handler_map (type_name event) = Some handler_method"
    and "handler_method env event w = (Inl (Raise e), w')"
    and "isinstance e ''Exception''"
  shows "loop_event_queue env (event # queue) w =
     (let w2 = fold (\<lambda>item. print_color [item] FMT_RED False) (format_tb env e)
                 (print_error [py ''Event resulted in an error:''] True w')
      in case args e of
           [] \<Rightarrow> (Died (IndexError ''tuple index out of range''), queue, w2)
         | message # _ \<Rightarrow> loop_event_queue env queue (print_color [message] FMT_RED True w2))"
  using assms by (simp add: Let_def)

section \<open>The concrete configuration\<close>

lemma py_Nil [simp]: "py [] = []"
  by (simp add: py_def)

lemma example_wrapper_fields:
  "\<not> is_server_running example_wrapper"
  "jobs example_wrapper = [example_job]"
  "observers example_wrapper = [example_observer]"
  "input_thread example_wrapper = Unstarted"
  "event_queue_thread example_wrapper = Unstarted"
  "\<not> server_input_lock example_wrapper"
  "trace example_wrapper = []"
  by (simp_all add: example_wrapper_def MCServerWrapper_init_def is_server_running_def)

lemma example_popen: "popen example_env argv = None"
  by (simp add: example_env_def)

lemma example_running_eq:
  "start_server example_env example_wrapper = (Inr (), example_running)"
  "example_running =
      act OutputThreadStart (act (Popen (split (program example_wrapper)))
        (print [py ''Starting server...''] [] [] True example_wrapper)
          \<lparr>server_process := Some (Process (split (program example_wrapper)) None None),
           server_output_thread := Some (Thread True)\<rparr>)"
  unfolding example_running_def
  by (simp_all add: start_server_not_running [OF example_wrapper_fields(1)] example_popen)

lemma example_running_fields:
  "is_server_running example_running"
  "server_process example_running \<noteq> None"
  "jobs example_running = [example_job]"
  "observers example_running = [example_observer]"
  "calls example_running = [Popen (split (program example_wrapper)), OutputThreadStart]"
  "stdin_ready example_running"
  "input_thread example_running = Unstarted"
  "event_queue_thread example_running = Unstarted"
proof -
  note eq = example_running_eq(2)
  show "is_server_running example_running"
    by (simp add: eq is_server_running_def)
  show "server_process example_running \<noteq> None"
    by (simp add: eq)
  show "jobs example_running = [example_job]"
    by (simp add: eq example_wrapper_fields)
  show "observers example_running = [example_observer]"
    by (simp add: eq example_wrapper_fields)
  show "calls example_running = [Popen (split (program example_wrapper)), OutputThreadStart]"
    by (simp add: eq calls_act) (simp add: calls_def example_wrapper_fields)
  show "stdin_ready example_running"
    by (simp add: eq stdin_ready_def example_wrapper_fields)
  show "input_thread example_running = Unstarted"
    by (simp add: eq example_wrapper_fields)
  show "event_queue_thread example_running = Unstarted"
    by (simp add: eq example_wrapper_fields)
qed

lemma example_threads:
  "job_thread example_job = Unstarted" "observer_thread example_observer = Unstarted"
  by (simp_all add: example_job_def example_observer_def DirectoryObserver_init_def)

lemma example_started_eq:
  "start example_env example_wrapper = (Inr (), example_started)"
  "example_started =
     act (JobStart 0) (act (ObserverStart 0) (act EventQueueThreadStart (act InputThreadStart
       (example_running\<lparr>input_thread := Alive\<rparr>)\<lparr>event_queue_thread := Alive\<rparr>)
         \<lparr>observers := [example_observer\<lparr>observer_thread := Alive\<rparr>]\<rparr>)
         \<lparr>jobs := [example_job\<lparr>job_thread := Alive\<rparr>]\<rparr>)"
  unfolding example_started_def
  by (simp_all add: start_def and_then_def example_running_eq(1) input_thread_start_def
      event_queue_thread_start_def thread_start_def example_running_fields start_observer_def
      start_job_def observer_start_def job_start_def example_threads act_def)

lemma example_started_fields:
  "is_server_running example_started"
  "stdin_ready example_started"
  "input_thread example_started = Alive"
  "jobs example_started = [example_job\<lparr>job_thread := Alive\<rparr>]"
  "observers example_started = [example_observer\<lparr>observer_thread := Alive\<rparr>]"
  "calls example_started =
     [Popen (split (program example_wrapper)), OutputThreadStart, InputThreadStart,
      EventQueueThreadStart, ObserverStart 0, JobStart 0]"
proof -
  note eq = example_started_eq(2)
  show "is_server_running example_started"
    using example_running_fields(1) by (simp add: eq is_server_running_def)
  show "stdin_ready example_started"
    using example_running_fields(6) by (simp add: eq stdin_ready_def)
  show "input_thread example_started = Alive"
    by (simp add: eq)
  show "jobs example_started = [example_job\<lparr>job_thread := Alive\<rparr>]"
    by (simp add: eq)
  show "observers example_started = [example_observer\<lparr>observer_thread := Alive\<rparr>]"
    by (simp add: eq)
  show "calls example_started =
     [Popen (split (program example_wrapper)), OutputThreadStart, InputThreadStart,
      EventQueueThreadStart, ObserverStart 0, JobStart 0]"
    by (simp add: eq calls_act example_running_fields)
qed




lemma example_closed_fields:
  "is_server_running example_closed"
  "\<not> server_input_lock example_closed"
  "server_process example_closed
     = Some (Process (split (program example_wrapper)) None (Some BrokenPipeError))"
proof -
  have p: "server_process example_started = Some (Process (split (program example_wrapper)) None None)"
    by (simp add: example_started_eq(2) example_running_eq(2))
  show "is_server_running example_closed"
    using example_started_fields(1) by (simp add: example_closed_def stdin_closes_def)
  show "\<not> server_input_lock example_closed"
    using example_started_fields(2) by (simp add: example_closed_def stdin_closes_def stdin_ready_def)
  show "server_process example_closed
     = Some (Process (split (program example_wrapper)) None (Some BrokenPipeError))"
    by (simp add: example_closed_def stdin_closes_def p)
qed

text \<open>Two console lines and their tokens.\<close>

lemma rstrip_echo: "rstrip (py ''echo hello world  '') = [] @ py ''echo'' @ py '' hello world''"
  by (simp add: rstrip_def py_def py_isspace_def)

lemma echo_arg: "dropWhile py_isspace (py '' hello world'') = py ''hello world''"
  by (simp add: py_def py_isspace_def)

lemma echo_token:
  "py ''echo'' \<noteq> []" "\<forall>c\<in>set (py ''echo''). \<not> py_isspace c"
  "py '' hello world'' = [] \<or> py_isspace (hd (py '' hello world''))"
  "py ''echo'' \<noteq> py ''start''" "py ''echo'' \<noteq> py ''restart''"
  by (simp_all add: py_def py_isspace_def)

lemma rstrip_say: "rstrip (py ''say hi'') = [] @ py ''say'' @ py '' hi''"
  by (simp add: rstrip_def py_def py_isspace_def)

lemma say_token:
  "py ''say'' \<noteq> []" "\<forall>c\<in>set (py ''say''). \<not> py_isspace c"
  "py '' hi'' = [] \<or> py_isspace (hd (py '' hi''))"
  "py ''say'' \<noteq> py ''start''" "py ''say'' \<noteq> py ''restart''" "py ''say'' \<noteq> py ''echo''"
  "py ''say'' \<noteq> py ''send''" "py ''say'' \<noteq> py ''>''" "py ''say'' \<noteq> py ''load''"
  "py ''say'' \<noteq> py ''run''"
  by (simp_all add: py_def py_isspace_def)

text \<open>The console line \<open>run boom\<close> in the concrete environment.\<close>

lemma rstrip_run_boom: "rstrip (py ''run boom'') = py ''run boom''"
  by (simp add: rstrip_def py_def py_isspace_def)

lemma split_run_boom: "split_maxsplit1 (py ''run boom'') = [py ''run'', py ''boom'']"
  by (simp add: split_maxsplit1_def py_def py_isspace_def)

lemma split_boom: "split_maxsplit1 (py ''boom'') = [py ''boom'']"
  by (simp add: split_maxsplit1_def py_def py_isspace_def)

lemma map_of_cmd_map_run: "map_of cmd_map (py ''run'') = Some parse_run_command"
  by (simp add: cmd_map_def py_def)

lemma run_boom:
  "run example_env (py ''boom'') w =
     (Inl (Raise (Exc [''RuntimeError'', ''Exception'', ''BaseException''] [])),
      print_warning [py ''Running procedure '' @ py ''boom'' @ py '' with parameters: '' @ py ''{}''] True w)"
  by (simp add: run_def split_boom run_procedure_def example_env_def isinstance_def)

lemma rstrip_say_id: "rstrip (py ''say hi'') = py ''say hi''"
  by (simp add: rstrip_def py_def py_isspace_def)

text \<open>
  An exception with an argument is reported and the next event is handled: \<open>run\<close>
  without a procedure name raises IndexError at \<open>tokens[0]\<close>.
\<close>

lemma rstrip_run: "rstrip (py ''run'') = py ''run''"
  by (simp add: rstrip_def py_def py_isspace_def)

lemma split_run: "split_maxsplit1 (py ''run'') = [py ''run'']"
  by (simp add: split_maxsplit1_def py_def py_isspace_def)

lemma rstrip_echo_hi: "rstrip (py ''echo hi'') = py ''echo hi''"
  by (simp add: rstrip_def py_def py_isspace_def)

lemma split_echo_hi: "split_maxsplit1 (py ''echo hi'') = [py ''echo'', py ''hi'']"
  by (simp add: split_maxsplit1_def py_def py_isspace_def)

lemma map_of_cmd_map_echo: "map_of cmd_map (py ''echo'') = Some parse_echo_command"
  by (simp add: cmd_map_def py_def)

lemma loop_event_queue_continues_after_IndexError:
  "loop_event_queue example_env [InputEvent (py ''run''), InputEvent (py ''echo hi'')] example_wrapper =
     (Waiting, [],
      print [py ''hi''] [] [] True
        (print_color [py ''list index out of range''] FMT_RED True
           (print_color [py ''  File boom.py, line 2, in run'' @ py ''\<newline>''] FMT_RED False
              (print_error [py ''Event resulted in an error:''] True example_wrapper))))"
proof -
  have handler: "map_of event_handler_map (type_name (InputEvent (py ''run''))) = Some handle_input_event"
    by (simp add: event_handler_map_def)
  have raised: "handle_input_event example_env (InputEvent (py ''run'')) example_wrapper =
     (Inl (Raise (IndexError ''list index out of range'')), example_wrapper)"
    by (simp add: rstrip_run split_run map_of_cmd_map_run parse_run_command_def
        returning_None_def run_def)
  have inst: "isinstance (IndexError ''list index out of range'') ''Exception''"
    by (simp add: isinstance_def IndexError_def)
  have tb: "format_tb example_env e = [py ''  File boom.py, line 2, in run'' @ py ''\<newline>'']" for e
    by (simp add: example_env_def)
  have echo: "handle_input_event example_env (InputEvent (py ''echo hi'')) w =
     (Inr False, print [py ''hi''] [] [] True w)" for w
    by (simp add: rstrip_echo_hi split_echo_hi map_of_cmd_map_echo parse_echo_command_def
        returning_None_def echo_def effect_def)
  have rest: "loop_event_queue example_env [InputEvent (py ''echo hi'')] w =
     (Waiting, [], print [py ''hi''] [] [] True w)" for w
    using echo [of w] by (simp add: event_handler_map_def del: handle_input_event.simps)
  show ?thesis
    by (subst loop_event_queue_handler_raises [OF handler raised inst])
       (simp add: tb IndexError_def rest del: loop_event_queue.simps)
qed

section \<open>The exit handler, the reader and the pipe\<close>

text \<open>The exit handler when the reader has ended, the threads have been started and the pipe takes the write.\<close>

lemma handle_exit_event_reader_finished:
  assumes "input_thread w = Finished"
    and "is_server_running w \<longrightarrow> stdin_ready w"
    and "\<forall>j\<in>set (jobs w). job_thread j \<noteq> Unstarted"
    and "\<forall>ob\<in>set (observers w). observer_thread ob \<noteq> Unstarted"
  shows "\<exists>w'. handle_exit_event env event w = (Inr True, w')
         \<and> calls w' = calls w @ [InputThreadJoin]
             @ (if is_server_running w
                then [LockAcquire, StdinWrite (py ''stop'' @ py ''\<newline>''), StdinFlush, LockRelease,
                      ProcessWait, OutputThreadJoin]
                else [])
             @ concat (map (\<lambda>i. [JobStop i, JobJoin i]) [0..<length (jobs w)])
             @ concat (map (\<lambda>i. [ObserverStop i, ObserverJoin i]) [0..<length (observers w)])
         \<and> \<not> is_server_running w'
         \<and> jobs w' = map (\<lambda>j. (job_stop j)\<lparr>job_thread := Finished\<rparr>) (jobs w)
         \<and> observers w' = map (\<lambda>ob. (observer_stop ob)\<lparr>observer_thread := Finished\<rparr>) (observers w)"
proof -
  note hyps = assms
  define w2 where "w2 = print [py ''Cleaning up input...''] [] [] True
      (print [py ''Stopping wrapper...''] [] [] True w)"
  define w3 where "w3 = act InputThreadJoin w2"
  have join: "input_thread_join w2 = (Inr (), w3)"
    using hyps by (simp add: w2_def w3_def input_thread_join_Finished)
  have w3: "calls w3 = calls w @ [InputThreadJoin]" "jobs w3 = jobs w" "observers w3 = observers w"
    "is_server_running w3 = is_server_running w" "stdin_ready w3 = stdin_ready w"
    by (simp_all add: w3_def w2_def calls_act stdin_ready_def)
  obtain w4 where w4: "(if is_server_running w3 then stop_server w3 else (Inr (), w3)) = (Inr (), w4)"
    "calls w4 = calls w3 @ (if is_server_running w
            then [LockAcquire, StdinWrite (py ''stop'' @ py ''\<newline>''), StdinFlush, LockRelease,
                  ProcessWait, OutputThreadJoin]
            else [])"
    "\<not> is_server_running w4" "jobs w4 = jobs w" "observers w4 = observers w"
  proof (cases "is_server_running w")
    case True
    then have "is_server_running w3" "stdin_ready w3" using hyps w3 by simp_all
    from stop_server_running [OF this] obtain w' where
      "stop_server w3 = (Inr (), w')"
      "calls w' = calls w3 @ [LockAcquire, StdinWrite (py ''stop'' @ py ''\<newline>''), StdinFlush, LockRelease,
                               ProcessWait, OutputThreadJoin]"
      "server_output_thread w' = Some (Thread False)" "jobs w' = jobs w3" "observers w' = observers w3"
      by blast
    then show ?thesis using True w3 that [of w'] by (simp add: is_server_running_def)
  next
    case False
    then show ?thesis using w3 that [of w3] by simp
  qed
  define w5 where "w5 = (if jobs w4 \<noteq> []
     then print [py ''Cleaning up '' @ str_nat (length (jobs w4)) @ py '' job(s)...''] [] [] True w4 else w4)"
  have w5: "calls w5 = calls w4" "jobs w5 = jobs w" "observers w5 = observers w"
    "is_server_running w5 = is_server_running w4"
    using w4 by (simp_all add: w5_def)
  have "\<forall>j\<in>set (jobs w5). job_thread j \<noteq> Unstarted" using hyps w5 by simp
  from for_each_stop_join_job [OF order_refl this] obtain w6 where
    w6: "for_each stop_join_job [0..<length (jobs w5)] w5 = (Inr (), w6)"
    "calls w6 = calls w5 @ concat (map (\<lambda>i. [JobStop i, JobJoin i]) [0..<length (jobs w5)])"
    "jobs w6 = map (\<lambda>j. (job_stop j)\<lparr>job_thread := Finished\<rparr>) (jobs w5)"
    "observers w6 = observers w5" "server_output_thread w6 = server_output_thread w5"
    by auto
  define w7 where "w7 = (if observers w6 \<noteq> []
     then print [py ''Cleaning up '' @ str_nat (length (observers w6)) @ py '' observer(s)...''] [] [] True w6
     else w6)"
  have w7: "calls w7 = calls w6" "jobs w7 = jobs w6" "observers w7 = observers w"
    "server_output_thread w7 = server_output_thread w6"
    using w6 w5 by (simp_all add: w7_def)
  have "\<forall>ob\<in>set (observers w7). observer_thread ob \<noteq> Unstarted" using hyps w7 by simp
  from for_each_stop_join_observer [OF order_refl this] obtain w8 where
    w8: "for_each stop_join_observer [0..<length (observers w7)] w7 = (Inr (), w8)"
    "calls w8 = calls w7 @ concat (map (\<lambda>i. [ObserverStop i, ObserverJoin i]) [0..<length (observers w7)])"
    "observers w8 = map (\<lambda>ob. (observer_stop ob)\<lparr>observer_thread := Finished\<rparr>) (observers w7)"
    "jobs w8 = jobs w7" "server_output_thread w8 = server_output_thread w7"
    by auto
  have "handle_exit_event env event w = (Inr True, w8)"
    unfolding handle_exit_event_def Let_def w2_def [symmetric]
    using join w4(1) w6(1) w8(1)
    by (simp add: w5_def [symmetric] w7_def [symmetric])
  moreover have "\<not> is_server_running w8"
    using w4(3) w5(4) w6(5) w7(4) w8(5) by (simp add: is_server_running_def)
  ultimately show ?thesis
    using w3 w4 w5 w6 w7 w8 by simp
qed


lemma handle_exit_event_reader_unstarted:
  assumes "input_thread w = Unstarted"
  shows "handle_exit_event env event w =
          (Inl (Raise (RuntimeError ''cannot join thread before it is started'')),
           print [py ''Cleaning up input...''] [] [] True
             (print [py ''Stopping wrapper...''] [] [] True w))"
  using assms by (simp add: handle_exit_event_def Let_def input_thread_join_Unstarted)

text \<open>An ExitEvent put by the reader: the reader has left its loop and its thread has ended.\<close>

lemma loop_input_exit: "ExitEvent \<in> set (fst (loop_input lines)) \<Longrightarrow> snd (loop_input lines)"
  by (induction lines) (auto simp: Let_def split: if_splits prod.splits)

lemma input_thread_run_exit:
  assumes "ExitEvent \<in> set (fst (input_thread_run lines w))"
  shows "input_thread (snd (input_thread_run lines w)) = Finished"
proof -
  have alive: "input_thread w = Alive"
    using assms by (auto simp: input_thread_run_def split: if_splits)
  then have "ExitEvent \<in> set (fst (loop_input lines))"
    using assms by (cases "loop_input lines") (simp add: input_thread_run_def)
  then have "snd (loop_input lines)" by (rule loop_input_exit)
  then show ?thesis
    using alive by (cases "loop_input lines") (simp add: input_thread_run_def)
qed

text \<open>The dispatcher ends when the exit handler has returned.\<close>

lemma loop_event_queue_exit:
  assumes "input_thread w = Finished"
    and "is_server_running w \<longrightarrow> stdin_ready w"
    and "\<forall>j\<in>set (jobs w). job_thread j \<noteq> Unstarted"
    and "\<forall>ob\<in>set (observers w). observer_thread ob \<noteq> Unstarted"
  shows "\<exists>w'. handle_exit_event env ExitEvent w = (Inr True, w')
     \<and> loop_event_queue env (ExitEvent # queue) w =
         (Stopped, queue, print [py ''Wrapper has stopped.''] [] [] True w')"
proof -
  from handle_exit_event_reader_finished [OF assms, of env ExitEvent]
  obtain w' where "handle_exit_event env ExitEvent w = (Inr True, w')" by blast
  then show ?thesis by (simp add: event_handler_map_def)
qed

text \<open>A write whose flush raises, and a write while the lock is held.\<close>

lemma write_server_not_running:
  assumes "\<not> is_server_running w"
  shows "write_server data w =
        (Inr (), w\<lparr>trace := trace w @
           [Print (FMT_RED @ py ''Server is not running!'' @ FMT_RESET @ py ''\<newline>'') False]\<rparr>)"
  using assms by (simp add: write_server_def print_error_eq)

lemma write_server_flush_raises:
  assumes "is_server_running w" and "\<not> server_input_lock w"
    and "server_process w = Some p" and "stdin_write_error p = None" and "stdin_flush_error p = Some e"
  shows "write_server data w =
     (Inl (Raise e), w\<lparr>server_input_lock := True, trace := trace w @ [LockAcquire, StdinWrite data]\<rparr>)"
  using assms by (simp add: write_server_def act_def Let_def)

lemma write_server_lock_held:
  assumes "is_server_running w" and "server_input_lock w"
  shows "write_server data w = (Inl Blocks, w)"
  using assms by (simp add: write_server_def)

text \<open>
  A \<open>stop_server\<close> whose write of \<open>stop\<close> fails does not complete: the exception leaves
  it before the wait and the join, and the child is still running.
\<close>

lemma stop_server_flush_raises:
  assumes "is_server_running w" and "\<not> server_input_lock w"
    and "server_process w = Some p" and "stdin_write_error p = None" and "stdin_flush_error p = Some e"
  shows "fst (stop_server w) = Inl (Raise e)"
    and "is_server_running (snd (stop_server w))"
    and "server_input_lock (snd (stop_server w))"
    and "calls (snd (stop_server w)) = calls w @ [LockAcquire, StdinWrite (py ''stop'' @ py ''\<newline>'')]"
proof -
  define w1 where "w1 = print [py ''Stopping server...''] [] [] True w"
  have "is_server_running w1" "\<not> server_input_lock w1" "server_process w1 = Some p"
    using assms by (simp_all add: w1_def)
  then have "write_server (py ''stop'' @ py ''\<newline>'') w1 =
     (Inl (Raise e), w1\<lparr>server_input_lock := True,
        trace := trace w1 @ [LockAcquire, StdinWrite (py ''stop'' @ py ''\<newline>'')]\<rparr>)"
    using assms(4,5) by (rule write_server_flush_raises)
  then have eq: "stop_server w =
     (Inl (Raise e), w1\<lparr>server_input_lock := True,
        trace := trace w1 @ [LockAcquire, StdinWrite (py ''stop'' @ py ''\<newline>'')]\<rparr>)"
    using assms(1) by (simp add: stop_server_def and_then_def effect_def send_def pipe_def w1_def)
  show "fst (stop_server w) = Inl (Raise e)" by (simp add: eq)
  show "is_server_running (snd (stop_server w))"
    using assms(1) by (simp add: eq w1_def is_server_running_def)
  show "server_input_lock (snd (stop_server w))" by (simp add: eq)
  show "calls (snd (stop_server w)) = calls w @ [LockAcquire, StdinWrite (py ''stop'' @ py ''\<newline>'')]"
    by (simp add: eq calls_def w1_def print_def Let_def act_def)
qed

section \<open>The claims\<close>

subsection \<open>C1: what the running query reflects\<close>

text \<open>
  C1, as the code has it. After any sequence of calls of \<open>start_server\<close> and
  \<open>stop_server\<close> and of ends of the child's output, starting from a new wrapper,
  \<open>_is_server_running\<close> is true exactly when a \<open>start_server\<close> has spawned a child and
  since then neither a \<open>stop_server\<close> has completed nor the relay thread has reached
  the end of the child's output. The query reads the liveness of the relay thread; the
  wrapper keeps no flag of its own.
\<close>

theorem is_server_running_is_thread_liveness:
  "is_server_running (fold (lifecycle_step env) ops (MCServerWrapper_init prog js os))
     = fold (thread_isRunning_step (popen env (split prog) = None)) ops False"
  by (rule lifecycle_invariant [THEN conjunct2, THEN conjunct2])

text \<open>Started and stopped and started again, started and stopped, started and the output ended.\<close>

theorem is_server_running_is_thread_liveness_witness:
  "is_server_running (fold (lifecycle_step example_env) [Start, Stop, Start] example_wrapper)
   \<and> \<not> is_server_running (fold (lifecycle_step example_env) [Start, Stop] example_wrapper)
   \<and> \<not> is_server_running (fold (lifecycle_step example_env) [Start, OutputEnds [py ''Done'']] example_wrapper)"
  unfolding example_wrapper_def
  using is_server_running_is_thread_liveness [of example_env "[Start, Stop, Start]"]
    is_server_running_is_thread_liveness [of example_env "[Start, Stop]"]
    is_server_running_is_thread_liveness [of example_env "[Start, OutputEnds [py ''Done'']]"]
  by (simp add: example_env_def)

text \<open>
  The flag of the specification and the query of the code part when the child's output
  ends without a call of \<open>stop_server\<close>: the child is spawned, the flag stays set, the
  query answers false.
\<close>

theorem is_server_running_counterexample:
  "popen example_env (split (program example_wrapper)) = None
   \<and> fold (spec_isRunning_step True) [Start, OutputEnds []] False
   \<and> \<not> is_server_running (fold (lifecycle_step example_env) [Start, OutputEnds []] example_wrapper)"
  by (simp add: example_env_def output_thread_run_def is_server_running_def split: option.splits)

subsection \<open>C2: a handler that raises\<close>

text \<open>
  C2, at a handler that raises an exception without arguments. The console line
  \<open>run boom\<close> runs a procedure that raises \<open>RuntimeError()\<close>. The dispatcher catches it
  and prints the first line of its report, then evaluates \<open>e.args[0]\<close> on the empty
  tuple: the IndexError leaves the loop, the dispatcher thread ends, and the event
  queued behind stays in the queue.
\<close>

theorem loop_event_queue_dies_on_empty_args:
  "loop_event_queue example_env [InputEvent (py ''run boom''), InputEvent (py ''echo hi'')] example_wrapper =
     (Died (IndexError ''tuple index out of range''),
      [InputEvent (py ''echo hi'')],
      print_color [py ''  File boom.py, line 2, in run'' @ py ''\<newline>''] FMT_RED False
        (print_error [py ''Event resulted in an error:''] True
           (print_warning [py ''Running procedure '' @ py ''boom'' @ py '' with parameters: '' @ py ''{}'']
              True example_wrapper)))"
proof -
  have handler: "map_of event_handler_map (type_name (InputEvent (py ''run boom''))) = Some handle_input_event"
    by (simp add: event_handler_map_def)
  have raised: "handle_input_event example_env (InputEvent (py ''run boom'')) example_wrapper =
     (Inl (Raise (Exc [''RuntimeError'', ''Exception'', ''BaseException''] [])),
      print_warning [py ''Running procedure '' @ py ''boom'' @ py '' with parameters: '' @ py ''{}'']
        True example_wrapper)"
    by (simp add: rstrip_run_boom split_run_boom map_of_cmd_map_run parse_run_command_def
        returning_None_def run_boom)
  have inst: "isinstance (Exc [''RuntimeError'', ''Exception'', ''BaseException''] []) ''Exception''"
    by (simp add: isinstance_def)
  have tb: "format_tb example_env e = [py ''  File boom.py, line 2, in run'' @ py ''\<newline>'']" for e
    by (simp add: example_env_def)
  show ?thesis
    by (subst loop_event_queue_handler_raises [OF handler raised inst]) (simp add: tb)
qed

subsection \<open>C3: a job without groups\<close>

text \<open>
  C3. Constructing a \<open>CommandSequenceJob\<close> with an empty list of groups raises
  ZeroDivisionError, for every title, delay and starting index: no job is built.
\<close>

theorem job_init_empty_groups_fails:
  "CommandSequenceJob_init title_arg delay index [] = Inl ZeroDivisionError"
  by (simp add: CommandSequenceJob_init_def)

theorem job_init_empty_groups_fails_witness:
  "CommandSequenceJob_init (py ''ping'') 1 0 [] = Inl ZeroDivisionError"
  using job_init_empty_groups_fails [of "py ''ping''" 1 0] by simp

subsection \<open>C4: writing to the child\<close>

text \<open>
  C4, at a running child that has closed its standard input. \<open>_write_server\<close> acquires
  the input lock and writes the text, the flush raises BrokenPipeError, and the
  exception leaves the method before \<open>release\<close>: the lock stays held, and the next
  write waits for it and does not return. (While no child is running the method only
  prints its error message, and while the pipe takes the write it acquires, writes,
  flushes and releases: \<open>write_server_not_running\<close>, \<open>write_server_ready\<close>.)
\<close>

theorem write_server_leaves_lock_held:
  "is_server_running example_closed
   \<and> \<not> server_input_lock example_closed
   \<and> write_server (py ''say hi'' @ py ''\<newline>'') example_closed =
       (Inl (Raise BrokenPipeError),
        example_closed\<lparr>server_input_lock := True,
          trace := trace example_closed @ [LockAcquire, StdinWrite (py ''say hi'' @ py ''\<newline>'')]\<rparr>)
   \<and> write_server (py ''say bye'' @ py ''\<newline>'')
         (snd (write_server (py ''say hi'' @ py ''\<newline>'') example_closed)) =
       (Inl Blocks, snd (write_server (py ''say hi'' @ py ''\<newline>'') example_closed))"
proof -
  have first: "write_server (py ''say hi'' @ py ''\<newline>'') example_closed =
       (Inl (Raise BrokenPipeError),
        example_closed\<lparr>server_input_lock := True,
          trace := trace example_closed @ [LockAcquire, StdinWrite (py ''say hi'' @ py ''\<newline>'')]\<rparr>)"
    by (rule write_server_flush_raises [OF example_closed_fields]) simp_all
  have "write_server (py ''say bye'' @ py ''\<newline>'')
       (example_closed\<lparr>server_input_lock := True,
          trace := trace example_closed @ [LockAcquire, StdinWrite (py ''say hi'' @ py ''\<newline>'')]\<rparr>)
     = (Inl Blocks,
        example_closed\<lparr>server_input_lock := True,
          trace := trace example_closed @ [LockAcquire, StdinWrite (py ''say hi'' @ py ''\<newline>'')]\<rparr>)"
    using example_closed_fields(1)
    by (intro write_server_lock_held) (simp_all add: is_server_running_def)
  then show ?thesis
    using first example_closed_fields(1,2) by simp
qed

subsection \<open>C5: the exit handler\<close>




subsection \<open>C6: the timer loop\<close>



subsection \<open>C7: the index of a job\<close>

text \<open>
  C7. For a job built from \<open>N \<ge> 1\<close> groups and any starting index, the current index
  is in \<open>[0, N)\<close> after construction and after every run of the timer loop, however
  many iterations it has made.
\<close>

theorem job_index_in_range:
  assumes "groups \<noteq> []"
  shows "\<exists>j0. CommandSequenceJob_init title_arg delay index groups = Inr j0
     \<and> 0 \<le> job_index j0 \<and> job_index j0 < int (length groups)
     \<and> (\<forall>waits. 0 \<le> job_index (snd (snd (loop_interval waits j0)))
           \<and> job_index (snd (snd (loop_interval waits j0))) < int (length groups))"
proof -
  define j0 where "j0 =
     \<lparr> job_title = title_arg, job_delay = delay, job_length = length groups,
       job_index = index mod int (length groups),
       job_command_texts = map (\<lambda>commands. join (py ''\<newline>'') commands @ py ''\<newline>'') groups,
       job_stop_event = False, job_thread = Unstarted \<rparr>"
  have init: "CommandSequenceJob_init title_arg delay index groups = Inr j0"
    unfolding j0_def using assms by (rule CommandSequenceJob_init_groups)
  have inv: "job_inv j0" "\<not> job_stop_event j0"
    using assms by (simp_all add: job_inv_def j0_def)
  have len: "job_length j0 = length groups" by (simp add: j0_def)
  have "0 \<le> job_index (snd (snd (loop_interval waits j0)))
      \<and> job_index (snd (snd (loop_interval waits j0))) < int (length groups)" for waits
    using assms by (simp add: loop_interval_run [OF inv(2) inv(1)] len)
  moreover have "0 \<le> job_index j0 \<and> job_index j0 < int (length groups)"
    using assms by (simp add: j0_def)
  ultimately show ?thesis using init by blast
qed

theorem job_index_in_range_witness:
  "example_groups \<noteq> []
   \<and> (\<exists>j0. CommandSequenceJob_init (py ''ping'') 1 (- 1) example_groups = Inr j0
     \<and> 0 \<le> job_index j0 \<and> job_index j0 < int (length example_groups)
     \<and> (\<forall>waits. 0 \<le> job_index (snd (snd (loop_interval waits j0)))
           \<and> job_index (snd (snd (loop_interval waits j0))) < int (length example_groups)))"
proof -
  have ne: "example_groups \<noteq> []" by (simp add: example_groups_def)
  show ?thesis
    using ne job_index_in_range [OF ne, of "py ''ping''" 1 "- 1"] by simp
qed

subsection \<open>C8: starting a running child\<close>



subsection \<open>C9: console lines\<close>

text \<open>
  C9, as the code has it. Take an Input event whose text is not blank. Without its
  trailing whitespace the text is some leading whitespace, a first token, and a rest
  that is empty or starts with whitespace. If the token is \<open>start\<close>, \<open>restart\<close>, \<open>echo\<close>,
  \<open>send\<close>, \<open>>\<close>, \<open>load\<close> or \<open>run\<close>, the handler calls the action of that name with the
  rest without its leading whitespace (the empty string when nothing is left); \<open>start\<close>
  and \<open>restart\<close> do not read it. Otherwise the handler calls \<open>send\<close> with the text
  without its trailing whitespace, which writes it and a newline to the child.
\<close>

theorem handle_input_event_dispatch:
  assumes line: "rstrip input = lead @ tok @ rest"
    and lead: "\<forall>c\<in>set lead. py_isspace c"
    and tok: "tok \<noteq> []" "\<forall>c\<in>set tok. \<not> py_isspace c"
    and rest: "rest = [] \<or> py_isspace (hd rest)"
  shows "handle_input_event env (InputEvent input) w =
     returning_None
       (let argline = dropWhile py_isspace rest in
        if tok = py ''start'' then start_server env
        else if tok = py ''restart'' then restart_server env
        else if tok = py ''echo'' then echo argline
        else if tok = py ''send'' \<or> tok = py ''>'' then send argline
        else if tok = py ''load'' then load env argline
        else if tok = py ''run'' then run env argline
        else send (rstrip input)) w"
proof -
  define arg where "arg = dropWhile py_isspace rest"
  have "split_maxsplit1 (rstrip input) = (if arg = [] then [tok] else [tok, arg])"
    unfolding line arg_def using lead tok rest by (rule split_maxsplit1_token)
  then have "split_maxsplit1 (rstrip input) = tok # (if arg = [] then [] else [arg])"
    by simp
  then have "handle_input_event env (InputEvent input) w =
     (case map_of cmd_map tok of
        Some method \<Rightarrow> returning_None (method env arg) w
      | None \<Rightarrow> returning_None (send (rstrip input)) w)"
    by (rule handle_input_event_tokens)
  then show ?thesis
    unfolding arg_def [symmetric] Let_def
    by (simp add: map_of_cmd_map parse_start_command_def parse_restart_command_def
        parse_echo_command_def parse_send_command_def parse_load_command_def parse_run_command_def)
qed

theorem handle_input_event_dispatch_witness:
  "handle_input_event example_env (InputEvent (py ''echo hello world  '')) example_running
     = returning_None (echo (py ''hello world'')) example_running
   \<and> handle_input_event example_env (InputEvent (py ''say hi'')) example_running
     = returning_None (send (py ''say hi'')) example_running"
proof -
  have "handle_input_event example_env (InputEvent (py ''echo hello world  '')) example_running
     = returning_None (echo (py ''hello world'')) example_running"
    using handle_input_event_dispatch [OF rstrip_echo _ echo_token(1,2,3), of example_env example_running]
    by (simp del: handle_input_event.simps add: echo_arg echo_token)
  moreover have "handle_input_event example_env (InputEvent (py ''say hi'')) example_running
     = returning_None (send (py ''say hi'')) example_running"
    using handle_input_event_dispatch [OF rstrip_say _ say_token(1,2,3), of example_env example_running]
    by (simp del: handle_input_event.simps add: say_token rstrip_say_id)
  ultimately show ?thesis by simp
qed

text \<open>
  The empty line has no first token, so it names no command; the handler returns
  without calling \<open>send\<close>, which would have written a newline to the running child.
\<close>

theorem empty_line_is_not_forwarded:
  "map_of cmd_map [] = None
   \<and> handle_input_event example_env (InputEvent []) example_running = (Inr False, example_running)
   \<and> returning_None (send (rstrip [])) example_running =
       (Inr False, example_running\<lparr>trace := trace example_running @
          [LockAcquire, StdinWrite (py ''\<newline>''), StdinFlush, LockRelease]\<rparr>)
   \<and> handle_input_event example_env (InputEvent []) example_running
       \<noteq> returning_None (send (rstrip [])) example_running"
proof -
  have a: "map_of cmd_map [] = None"
    by (simp add: cmd_map_def py_def)
  have b: "handle_input_event example_env (InputEvent []) example_running = (Inr False, example_running)"
    by (simp add: rstrip_def)
  have c: "returning_None (send (rstrip [])) example_running =
       (Inr False, example_running\<lparr>trace := trace example_running @
          [LockAcquire, StdinWrite (py ''\<newline>''), StdinFlush, LockRelease]\<rparr>)"
    by (simp add: returning_None_def rstrip_def send_running [OF example_running_fields(1,6)])
  have "example_running\<lparr>trace := trace example_running @
          [LockAcquire, StdinWrite (py ''\<newline>''), StdinFlush, LockRelease]\<rparr> \<noteq> example_running"
  proof
    assume "example_running\<lparr>trace := trace example_running @
          [LockAcquire, StdinWrite (py ''\<newline>''), StdinFlush, LockRelease]\<rparr> = example_running"
    then have "trace (example_running\<lparr>trace := trace example_running @
          [LockAcquire, StdinWrite (py ''\<newline>''), StdinFlush, LockRelease]\<rparr>) = trace example_running"
      by simp
    then show False by simp
  qed
  then show ?thesis using a b c by simp
qed

subsection \<open>C10: blank console lines\<close>

text \<open>
  C10. For an Input event whose text is empty or only whitespace, the handler returns
  with the wrapper as it was: no command action is called, nothing is printed and
  nothing is written to the child.
\<close>

theorem handle_input_event_blank:
  assumes "\<forall>c\<in>set input. py_isspace c"
  shows "handle_input_event env (InputEvent input) w = (Inr False, w)"
  using assms by (simp add: rstrip_all_space)

theorem handle_input_event_blank_witness:
  "handle_input_event example_env (InputEvent (py ''   '')) example_running = (Inr False, example_running)
   \<and> handle_input_event example_env (InputEvent []) example_running = (Inr False, example_running)"
proof -
  have "\<forall>c\<in>set (py ''   ''). py_isspace c"
    by (simp add: py_def py_isspace_def)
  then have "handle_input_event example_env (InputEvent (py ''   '')) example_running
      = (Inr False, example_running)"
    by (rule handle_input_event_blank)
  moreover have "handle_input_event example_env (InputEvent []) example_running
      = (Inr False, example_running)"
    by (rule handle_input_event_blank) simp
  ultimately show ?thesis by simp
qed

end
